theory Spec2Isabelle
  imports Complex_Main "HOL-Library.Char_ord" "HOL-Library.List_Lexorder" "HOL-Library.AList"
begin

section \<open>Values, documents and the two typed comparisons\<close>

text \<open>
  A document's content is a Go \<^verbatim>\<open>map[string]interface{}\<close>. The dynamic values that the
  code distinguishes by a type switch are strings, \<^verbatim>\<open>float64\<close>, \<^verbatim>\<open>int\<close> and
  \<^verbatim>\<open>bool\<close>; everything else (nil, nested maps, slices) only ever reaches the fallback
  branch of a comparison.

  Numbers: a Go \<^verbatim>\<open>int\<close> is modelled by \<open>int\<close> (the code only compares integers, it never
  does arithmetic on them; \<open>Atoi\<close> below keeps the 64-bit range check). A finite
  \<^verbatim>\<open>float64\<close> is modelled by the real number it denotes; \<^verbatim>\<open>float64(i)\<close> is then
  \<open>of_int i\<close> (exact for \<open>\<bar>i\<bar> \<le> 2^53\<close>) and \<^verbatim>\<open>int(f)\<close> is truncation towards zero
  (Go's result for every \<open>f\<close> inside the 64-bit range). NaN and the infinities are
  outside the model.
\<close>

datatype val =
    VNil
  | VStr string
  | VFloat real
  | VInt int
  | VBool bool
  | VSeq "val list"
  | VMap "(string \<times> val) list"

record Document =
  ID :: string
  Content :: "string \<rightharpoonup> val"

definition getNestedValue :: "(string \<rightharpoonup> val) \<Rightarrow> string \<Rightarrow> val option" where
  \<comment> \<open>\<^verbatim>\<open>val, ok := content[field]\<close>: a flat lookup, \<open>None\<close> when \<open>ok\<close> is false.\<close>
  "getNestedValue content field = content field"

definition three_way :: "'a::linorder \<Rightarrow> 'a \<Rightarrow> int" where
  \<comment> \<open>the recurring \<^verbatim>\<open>if v1 < v2 { return -1 } else if v1 > v2 { return 1 }; return 0\<close>\<close>
  "three_way v1 v2 = (if v1 < v2 then - 1 else if v1 > v2 then 1 else 0)"

definition bool_way :: "bool \<Rightarrow> bool \<Rightarrow> int" where
  \<comment> \<open>\<^verbatim>\<open>if !v1 && v2 { return -1 } else if v1 && !v2 { return 1 }; return 0\<close>\<close>
  "bool_way v1 v2 = (if \<not> v1 \<and> v2 then - 1 else if v1 \<and> \<not> v2 then 1 else 0)"

definition float_to_int :: "real \<Rightarrow> int" where
  \<comment> \<open>Go's conversion \<^verbatim>\<open>int(f)\<close>: the fraction is discarded, rounding towards zero.\<close>
  "float_to_int f = (if 0 \<le> f then \<lfloor>f\<rfloor> else \<lceil>f\<rceil>)"

subsection \<open>package index: \<^verbatim>\<open>compare\<close>\<close>

fun compare :: "val \<Rightarrow> val \<Rightarrow> int" where
  "compare (VStr v1) b = (case b of VStr v2 \<Rightarrow> three_way v1 v2 | _ \<Rightarrow> 0)"
| "compare (VFloat v1) b =
     (case b of VFloat v2 \<Rightarrow> three_way v1 v2
              | VInt v2 \<Rightarrow> three_way v1 (of_int v2)
              | _ \<Rightarrow> 0)"
| "compare (VInt v1) b =
     (case b of VInt v2 \<Rightarrow> three_way v1 v2
              | VFloat v2 \<Rightarrow> three_way (of_int v1) v2
              | _ \<Rightarrow> 0)"
| "compare (VBool v1) b = (case b of VBool v2 \<Rightarrow> bool_way v1 v2 | _ \<Rightarrow> 0)"
| "compare _ b = 0"

subsection \<open>package query: \<^verbatim>\<open>QueryExecutor.compare\<close>, \<^verbatim>\<open>equals\<close>, \<^verbatim>\<open>compareValues\<close>\<close>

fun qe_compare :: "val \<Rightarrow> val \<Rightarrow> int" where
  "qe_compare (VStr v1) b = (case b of VStr v2 \<Rightarrow> three_way v1 v2 | _ \<Rightarrow> 0)"
| "qe_compare (VFloat v1) b =
     (case b of VFloat v2 \<Rightarrow> three_way v1 v2
              | VInt v2 \<Rightarrow> three_way v1 (of_int v2)
              | _ \<Rightarrow> 0)"
| "qe_compare (VInt v1) b =
     (case b of VInt v2 \<Rightarrow> three_way v1 v2
              | VFloat v2 \<Rightarrow> three_way v1 (float_to_int v2)
              | _ \<Rightarrow> 0)"
| "qe_compare (VBool v1) b = (case b of VBool v2 \<Rightarrow> bool_way v1 v2 | _ \<Rightarrow> 0)"
| "qe_compare _ b = 0"

definition equals :: "val \<Rightarrow> val \<Rightarrow> bool" where
  "equals a b = (qe_compare a b = 0)"

definition compareValues :: "val \<Rightarrow> string \<Rightarrow> val \<Rightarrow> bool" where
  "compareValues left op right =
     (if op = ''='' then equals left right
      else if op = ''!='' then \<not> equals left right
      else if op = ''>'' then qe_compare left right > 0
      else if op = ''>='' then qe_compare left right \<ge> 0
      else if op = ''<'' then qe_compare left right < 0
      else if op = ''<='' then qe_compare left right \<le> 0
      else False)"

subsection \<open>Conditions and their evaluation\<close>

text \<open>
  The struct \<^verbatim>\<open>Condition\<close>: a leaf uses \<open>Left\<close>, \<open>Operator\<close>, \<open>Right\<close>; an inner node uses
  \<open>ChildOp\<close> and \<open>Children\<close>. Fields that a constructor leaves out hold Go's zero
  values (\<open>VNil\<close>, the empty string, the empty list).
\<close>

datatype Condition =
  Condition (Left: val) (Operator: string) (Right: val) (ChildOp: string)
            (Children: "Condition list")

fun evalCondition :: "Document \<Rightarrow> Condition \<Rightarrow> bool" where
  "evalCondition doc (Condition left op right childOp children) =
     (let results = map (evalCondition doc) children;
          simple =
            (case left of
               VStr fieldName \<Rightarrow>
                 (if fieldName = ''_id'' then compareValues (VStr (ID doc)) op right
                  else (case getNestedValue (Content doc) fieldName of
                          None \<Rightarrow> False
                        | Some v \<Rightarrow> compareValues v op right))
             | _ \<Rightarrow> False)
      in if length children > 0 then
           (if childOp = ''AND'' then list_all (\<lambda>r. r) results
            else if childOp = ''OR'' then list_ex (\<lambda>r. r) results
            else simple)
         else simple)"

section \<open>The query parser\<close>

subsection \<open>The string functions of Go's library that the parser calls\<close>

text \<open>
  A Go string is a sequence of bytes; \<open>string\<close> is the list of these bytes.
  \<open>ToUpper\<close> and \<open>ToLower\<close> map the ASCII letters and leave every other byte as it is.
  The parser only asks whether the upper case text contains \<^verbatim>\<open>" AND "\<close> or \<^verbatim>\<open>" OR "\<close> and
  whether the lower case text is \<^verbatim>\<open>true\<close> or \<^verbatim>\<open>false\<close>; no character outside ASCII has
  one of these letters as its upper or lower case, so these tests come out as in Go on
  every text.
\<close>

definition isDigit :: "char \<Rightarrow> bool" where
  "isDigit c = (CHR ''0'' \<le> c \<and> c \<le> CHR ''9'')"

definition upper_char :: "char \<Rightarrow> char" where
  "upper_char c =
     (if CHR ''a'' \<le> c \<and> c \<le> CHR ''z'' then char_of (of_char c - (32::nat)) else c)"

definition lower_char :: "char \<Rightarrow> char" where
  "lower_char c =
     (if CHR ''A'' \<le> c \<and> c \<le> CHR ''Z'' then char_of (of_char c + (32::nat)) else c)"

definition ToUpper :: "string \<Rightarrow> string" where
  "ToUpper s = map upper_char s"

definition ToLower :: "string \<Rightarrow> string" where
  "ToLower s = map lower_char s"

definition HasPrefix :: "string \<Rightarrow> string \<Rightarrow> bool" where
  "HasPrefix s p = (length s \<ge> length p \<and> take (length p) s = p)"

definition HasSuffix :: "string \<Rightarrow> string \<Rightarrow> bool" where
  "HasSuffix s p = (length s \<ge> length p \<and> drop (length s - length p) s = p)"

fun Index :: "string \<Rightarrow> string \<Rightarrow> nat option" where
  "Index [] sep = (if sep = [] then Some 0 else None)"
| "Index (c # cs) sep =
     (if HasPrefix (c # cs) sep then Some 0 else map_option Suc (Index cs sep))"

definition Contains :: "string \<Rightarrow> string \<Rightarrow> bool" where
  "Contains s sub = (Index s sub \<noteq> None)"

lemma Index_bound: "Index s sep = Some i \<Longrightarrow> i + length sep \<le> length s"
  by (induction s arbitrary: i) (auto simp: HasPrefix_def split: if_splits)

text \<open>
  \<^verbatim>\<open>strings.Split(s, sep)\<close> cuts at every occurrence of \<open>sep\<close>, found from left to right and
  not overlapping; without an occurrence the result is \<open>[s]\<close>. The parser only passes
  non-empty separators (for an empty one Go cuts between the characters).
\<close>

function Split :: "string \<Rightarrow> string \<Rightarrow> string list" where
  "Split s sep =
     (if sep = [] then map (\<lambda>c. [c]) s
      else (case Index s sep of
              None \<Rightarrow> [s]
            | Some i \<Rightarrow> take i s # Split (drop (i + length sep) s) sep))"
  by pat_completeness auto
termination
proof (relation "measure (\<lambda>(s, sep). length s)")
  show "wf (measure (\<lambda>(s, sep). length s))" by simp
next
  fix s sep :: string and i
  assume "sep \<noteq> []" and "Index s sep = Some i"
  then have "0 < length sep" and "i + length sep \<le> length s"
    by (simp_all add: Index_bound)
  then have "length s - (i + length sep) < length s"
    by arith
  then show "((drop (i + length sep) s, sep), (s, sep)) \<in> measure (\<lambda>(s, sep). length s)"
    by simp
qed

declare Split.simps [simp del]

definition SplitN2 :: "string \<Rightarrow> string \<Rightarrow> string list" where
  \<comment> \<open>\<^verbatim>\<open>strings.SplitN(s, sep, 2)\<close> for a non-empty \<open>sep\<close>: cut at the first occurrence only\<close>
  "SplitN2 s sep =
     (case Index s sep of None \<Rightarrow> [s] | Some i \<Rightarrow> [take i s, drop (i + length sep) s])"

text \<open>
  \<^verbatim>\<open>strings.TrimSpace\<close> removes the characters of \<^verbatim>\<open>unicode.IsSpace\<close> from both ends of
  the text. \<open>spaces\<close> lists them in UTF-8: the six of ASCII, then U+0085, U+00A0,
  U+1680, U+2000 to U+200A, U+2028, U+2029, U+202F, U+205F and U+3000. No encoding in
  the list starts or ends another one, and Go decodes exactly these bytes at the start
  or at the end of a text as the character they encode, so removing listed prefixes and
  then listed suffixes is what Go does.
\<close>

definition spaces :: "string list" where
  "spaces =
     [[CHR 0x09], [CHR 0x0A], [CHR 0x0B], [CHR 0x0C], [CHR 0x0D], [CHR 0x20],
      [CHR 0xC2, CHR 0x85], [CHR 0xC2, CHR 0xA0], [CHR 0xE1, CHR 0x9A, CHR 0x80],
      [CHR 0xE2, CHR 0x80, CHR 0x80], [CHR 0xE2, CHR 0x80, CHR 0x81],
      [CHR 0xE2, CHR 0x80, CHR 0x82], [CHR 0xE2, CHR 0x80, CHR 0x83],
      [CHR 0xE2, CHR 0x80, CHR 0x84], [CHR 0xE2, CHR 0x80, CHR 0x85],
      [CHR 0xE2, CHR 0x80, CHR 0x86], [CHR 0xE2, CHR 0x80, CHR 0x87],
      [CHR 0xE2, CHR 0x80, CHR 0x88], [CHR 0xE2, CHR 0x80, CHR 0x89],
      [CHR 0xE2, CHR 0x80, CHR 0x8A], [CHR 0xE2, CHR 0x80, CHR 0xA8],
      [CHR 0xE2, CHR 0x80, CHR 0xA9], [CHR 0xE2, CHR 0x80, CHR 0xAF],
      [CHR 0xE2, CHR 0x81, CHR 0x9F], [CHR 0xE3, CHR 0x80, CHR 0x80]]"

function trimPrefixes :: "string list \<Rightarrow> string \<Rightarrow> string" where
  "trimPrefixes ws s =
     (case find (\<lambda>w. w \<noteq> [] \<and> HasPrefix s w) ws of
        None \<Rightarrow> s
      | Some w \<Rightarrow> trimPrefixes ws (drop (length w) s))"
  by pat_completeness auto
termination
proof (relation "measure (\<lambda>(ws, s). length s)")
  show "wf (measure (\<lambda>(ws, s). length s))" by simp
next
  fix ws :: "string list" and s w :: string
  assume "find (\<lambda>w. w \<noteq> [] \<and> HasPrefix s w) ws = Some w"
  then have "w \<noteq> []" and "HasPrefix s w"
    by (auto simp add: find_Some_iff)
  then have "0 < length w" and "length w \<le> length s"
    by (simp_all add: HasPrefix_def)
  then have "length s - length w < length s"
    by arith
  then show "((ws, drop (length w) s), (ws, s)) \<in> measure (\<lambda>(ws, s). length s)"
    by simp
qed

declare trimPrefixes.simps [simp del]

definition TrimSpace :: "string \<Rightarrow> string" where
  "TrimSpace s = rev (trimPrefixes (map rev spaces) (rev (trimPrefixes spaces s)))"

definition digit_val :: "char \<Rightarrow> int" where
  "digit_val c = int (of_char c) - 48"

definition Atoi :: "string \<Rightarrow> int option" where
  \<comment> \<open>\<^verbatim>\<open>strconv.Atoi\<close>: an optional sign, then one or more decimal digits, and the value
      must fit a 64-bit \<^verbatim>\<open>int\<close>; \<open>None\<close> stands for the \<^verbatim>\<open>*NumError\<close> otherwise.\<close>
  "Atoi s =
     (let neg = (s \<noteq> [] \<and> hd s = CHR ''-'');
          ds = (if s \<noteq> [] \<and> (hd s = CHR ''-'' \<or> hd s = CHR ''+'') then tl s else s)
      in if ds = [] \<or> \<not> list_all isDigit ds then None
         else (let n = foldl (\<lambda>a c. 10 * a + digit_val c) 0 ds;
                   v = (if neg then - n else n)
               in if v < - (2 ^ 63) \<or> 2 ^ 63 \<le> v then None else Some v))"

subsection \<open>The five regular expressions of \<^verbatim>\<open>NewQueryParser\<close>\<close>

text \<open>
  The expressions are built from few forms, all under the flag \<^verbatim>\<open>(?i)\<close>: a literal
  keyword, \<^verbatim>\<open>\s+\<close>, the lazy capture \<^verbatim>\<open>(.*?)\<close>, the greedy capture \<^verbatim>\<open>(\d+)\<close>, the end of
  the text \<^verbatim>\<open>$\<close> and one group of alternatives. Go's \<^verbatim>\<open>regexp\<close> returns the leftmost match
  and, among the matches that start there, the one a backtracking search finds first:
  a greedy repetition tries its longest run first, a lazy one its shortest, and the
  alternatives of a group are tried from left to right.
\<close>

datatype atom =
    Lit string   \<comment> \<open>a keyword of ASCII letters, matched with case folding\<close>
  | Spaces       \<comment> \<open>\<^verbatim>\<open>\s+\<close>, greedy\<close>
  | LazyAny      \<comment> \<open>\<^verbatim>\<open>(.*?)\<close>, capturing; the dot matches everything but a line feed\<close>
  | Digits       \<comment> \<open>\<^verbatim>\<open>(\d+)\<close>, capturing, greedy\<close>
  | EndText      \<comment> \<open>\<^verbatim>\<open>$\<close>\<close>

datatype re = Atom atom | Group "atom list list"

definition isReSpace :: "char \<Rightarrow> bool" where
  \<comment> \<open>the class \<^verbatim>\<open>\s\<close> of Go's regexp syntax: tab, line feed, form feed, return, space\<close>
  "isReSpace c = (c \<in> {CHR 0x09, CHR 0x0A, CHR 0x0C, CHR 0x0D, CHR '' ''})"

text \<open>
  A keyword under \<^verbatim>\<open>(?i)\<close>. Go's regexp matches a letter of the pattern against every
  character of its orbit under \<^verbatim>\<open>unicode.SimpleFold\<close>. For an ASCII letter the orbit is
  its two cases, with two exceptions: S and s fold with the long s (U+017F, the bytes
  C5 BF in UTF-8), and K and k fold with the Kelvin sign (U+212A, the bytes E2 84 AA).
  \<open>fold_step p s\<close> matches the pattern character \<open>p\<close> at the start of \<open>s\<close> and returns
  the text after it; \<open>lit_rest\<close> does so for a whole keyword. The bytes C5 and E2 only
  ever start a character of UTF-8 text, as do the ASCII bytes, so matching bytes and
  matching decoded characters agree.
\<close>

definition fold_step :: "char \<Rightarrow> string \<Rightarrow> string option" where
  "fold_step p s =
     (if upper_char p = CHR ''S'' \<and> take 2 s = [CHR 0xC5, CHR 0xBF] then Some (drop 2 s)
      else if upper_char p = CHR ''K'' \<and> take 3 s = [CHR 0xE2, CHR 0x84, CHR 0xAA]
      then Some (drop 3 s)
      else (case s of
              [] \<Rightarrow> None
            | c # r \<Rightarrow> if upper_char c = upper_char p then Some r else None))"

fun lit_rest :: "string \<Rightarrow> string \<Rightarrow> string option" where
  "lit_rest [] s = Some s"
| "lit_rest (p # ps) s = (case fold_step p s of None \<Rightarrow> None | Some r \<Rightarrow> lit_rest ps r)"

fun first_some :: "'a option list \<Rightarrow> 'a option" where
  "first_some [] = None"
| "first_some (Some x # xs) = Some x"
| "first_some (None # xs) = first_some xs"

fun groups :: "re list \<Rightarrow> nat" where
  "groups [] = 0"
| "groups (Atom a # rs) = groups rs"
| "groups (Group alts # rs) = Suc (groups rs)"

lemma groups_append: "groups (rs @ rs') = groups rs + groups rs'"
  by (induction rs rule: groups.induct) simp_all

lemma groups_atoms: "groups (map Atom as) = 0"
  by (induction as) simp_all

text \<open>
  \<open>rmatch rs s\<close> matches the sequence \<open>rs\<close> at the start of \<open>s\<close> and returns the captured
  substrings of the first successful path of the backtracking search.
\<close>

function rmatch :: "re list \<Rightarrow> string \<Rightarrow> string list option" where
  "rmatch [] s = Some []"
| "rmatch (Atom (Lit l) # rs) s =
     (case lit_rest l s of None \<Rightarrow> None | Some r \<Rightarrow> rmatch rs r)"
| "rmatch (Atom Spaces # rs) s =
     first_some (map (\<lambda>k. rmatch rs (drop k s))
                     (rev [1 ..< Suc (length (takeWhile isReSpace s))]))"
| "rmatch (Atom LazyAny # rs) s =
     first_some (map (\<lambda>k. map_option ((#) (take k s)) (rmatch rs (drop k s)))
                     [0 ..< Suc (length (takeWhile (\<lambda>c. c \<noteq> CHR 0x0A) s))])"
| "rmatch (Atom Digits # rs) s =
     first_some (map (\<lambda>k. map_option ((#) (take k s)) (rmatch rs (drop k s)))
                     (rev [1 ..< Suc (length (takeWhile isDigit s))]))"
| "rmatch (Atom EndText # rs) s = (if s = [] then rmatch rs s else None)"
| "rmatch (Group alts # rs) s =
     first_some (map (\<lambda>alt. rmatch (map Atom alt @ rs) s) alts)"
  by pat_completeness auto
termination
  by (relation "measures [\<lambda>(rs, s). groups rs, \<lambda>(rs, s). length rs]")
     (simp_all add: groups_append groups_atoms)

declare rmatch.simps [simp del]

text \<open>
  \<^verbatim>\<open>FindStringSubmatch\<close>: the leftmost match. Go returns the matched text followed by the
  captures, or nil; the model returns the captures alone, so that Go's \<^verbatim>\<open>matches[1]\<close>
  is \<open>matches ! 0\<close> and the test \<^verbatim>\<open>len(matches) < 2\<close> is \<open>length matches < 1\<close>. The group of
  alternatives is a capture too in Go; the parser never reads it, and the model leaves
  it out. Every form but the dot matches ASCII characters or one of the two folded
  characters, so on UTF-8 text the captures are cut at the same bytes whether the dot
  steps over bytes or over code points.
\<close>

fun FindStringSubmatch :: "re list \<Rightarrow> string \<Rightarrow> string list" where
  "FindStringSubmatch rs [] = (case rmatch rs [] of Some caps \<Rightarrow> caps | None \<Rightarrow> [])"
| "FindStringSubmatch rs (c # cs) =
     (case rmatch rs (c # cs) of Some caps \<Rightarrow> caps | None \<Rightarrow> FindStringSubmatch rs cs)"

definition selectRegex :: "re list" where
  \<comment> \<open>\<^verbatim>\<open>(?i)SELECT\s+(.*?)\s+FROM\<close>\<close>
  "selectRegex = [Atom (Lit ''SELECT''), Atom Spaces, Atom LazyAny, Atom Spaces, Atom (Lit ''FROM'')]"

definition fromRegex :: "re list" where
  \<comment> \<open>\<^verbatim>\<open>(?i)FROM\s+(.*?)(\s+WHERE|\s+LIMIT|\s+OFFSET|$)\<close>\<close>
  "fromRegex = [Atom (Lit ''FROM''), Atom Spaces, Atom LazyAny,
                Group [[Spaces, Lit ''WHERE''], [Spaces, Lit ''LIMIT''], [Spaces, Lit ''OFFSET''],
                       [EndText]]]"

definition whereRegex :: "re list" where
  \<comment> \<open>\<^verbatim>\<open>(?i)WHERE\s+(.*?)(\s+LIMIT|\s+OFFSET|$)\<close>\<close>
  "whereRegex = [Atom (Lit ''WHERE''), Atom Spaces, Atom LazyAny,
                 Group [[Spaces, Lit ''LIMIT''], [Spaces, Lit ''OFFSET''], [EndText]]]"

definition limitRegex :: "re list" where
  \<comment> \<open>\<^verbatim>\<open>(?i)LIMIT\s+(\d+)\<close>\<close>
  "limitRegex = [Atom (Lit ''LIMIT''), Atom Spaces, Atom Digits]"

definition offsetRegex :: "re list" where
  \<comment> \<open>\<^verbatim>\<open>(?i)OFFSET\s+(\d+)\<close>\<close>
  "offsetRegex = [Atom (Lit ''OFFSET''), Atom Spaces, Atom Digits]"

subsection \<open>\<^verbatim>\<open>parseCondition\<close> and \<^verbatim>\<open>Parse\<close>\<close>

datatype error =
    InvalidSelect        \<comment> \<open>the SELECT expression found no match\<close>
  | InvalidFrom          \<comment> \<open>the FROM expression found no match\<close>
  | InvalidCondition     \<comment> \<open>a condition without any of the six operators\<close>
  | NumError             \<comment> \<open>the error of \<^verbatim>\<open>strconv.Atoi\<close> or \<^verbatim>\<open>strconv.ParseFloat\<close>\<close>
  | Panic                \<comment> \<open>a run-time panic: an index or a slice bound out of range\<close>
  | CollectionNotFound
  | NotFound             \<comment> \<open>no such document, or no such file\<close>
  | EmptyID
  | FieldMismatch        \<comment> \<open>\<^verbatim>\<open>Search\<close> on a field the index is not bound to\<close>
  | IndexExists
  | IndexNotFound
  | UnknownIndexType

record Query =
  Select :: "string list"
  From :: string
  Where :: "Condition option"
  Limit :: int
  Offset :: int

text \<open>
  The right-hand side of a simple condition. \<^verbatim>\<open>strconv.ParseFloat\<close> is a parameter
  \<open>pf\<close> of the model (\<open>None\<close> is its error): no statement below depends on which
  decimal syntax it accepts.
\<close>

definition parseRight :: "(string \<Rightarrow> real option) \<Rightarrow> string \<Rightarrow> error + val" where
  "parseRight pf right =
     (if HasPrefix right [CHR 0x27] \<and> HasSuffix right [CHR 0x27] then
        (if 1 \<le> length right - 1 then Inr (VStr (drop 1 (take (length right - 1) right)))
         else Inl Panic)
      else if ToLower right = ''true'' \<or> ToLower right = ''false'' then
        Inr (VBool (ToLower right = ''true''))
      else if Contains right ''.'' then
        (case pf right of None \<Rightarrow> Inl NumError | Some f \<Rightarrow> Inr (VFloat f))
      else
        (case Atoi right of None \<Rightarrow> Inl NumError | Some i \<Rightarrow> Inr (VInt i)))"

fun parseSimple :: "(string \<Rightarrow> real option) \<Rightarrow> string list \<Rightarrow> string \<Rightarrow> error + Condition" where
  \<comment> \<open>the loop over the operators \<^verbatim>\<open>">=", "<=", "!=", ">", "<", "="\<close>, in this order\<close>
  "parseSimple pf [] condStr = Inl InvalidCondition"
| "parseSimple pf (op # ops) condStr =
     (if Contains condStr op then
        (let parts = SplitN2 condStr op in
         if length parts \<noteq> 2 then Inl InvalidCondition
         else (let left = TrimSpace (parts ! 0); right = TrimSpace (parts ! 1) in
               case parseRight pf right of
                 Inl e \<Rightarrow> Inl e
               | Inr rightVal \<Rightarrow> Inr (Condition (VStr left) op rightVal [] [])))
      else parseSimple pf ops condStr)"

definition operators :: "string list" where
  "operators = [''>='', ''<='', ''!='', ''>'', ''<'', ''='']"

text \<open>
  The loop over the parts of a compound condition: the parts are parsed from left to
  right and the first error ends the loop. A recursive call that does not return
  (\<open>None\<close>) keeps the whole loop from returning.
\<close>

fun collect :: "(error + Condition) option list \<Rightarrow> (error + Condition list) option" where
  "collect [] = Some (Inr [])"
| "collect (None # rest) = None"
| "collect (Some (Inl e) # rest) = Some (Inl e)"
| "collect (Some (Inr c) # rest) =
     (case collect rest of
        None \<Rightarrow> None
      | Some (Inl e) \<Rightarrow> Some (Inl e)
      | Some (Inr cs) \<Rightarrow> Some (Inr (c # cs)))"

definition mkNode :: "string \<Rightarrow> (error + Condition list) option \<Rightarrow> (error + Condition) option" where
  "mkNode childOp r =
     (case r of
        None \<Rightarrow> None
      | Some (Inl e) \<Rightarrow> Some (Inl e)
      | Some (Inr conditions) \<Rightarrow> Some (Inr (Condition VNil [] VNil childOp conditions)))"

text \<open>
  \<open>parseCondition\<close> calls itself on every part of the split text, and nothing in the
  source bounds the depth of these calls. The model counts the depth: with fuel \<open>n\<close> the
  calls may nest \<open>n\<close> deep, and \<open>None\<close> says that this was not enough. The Go function
  returns exactly when some amount of fuel yields \<open>Some\<close>.
\<close>

fun parseCondition :: "(string \<Rightarrow> real option) \<Rightarrow> nat \<Rightarrow> string \<Rightarrow> (error + Condition) option" where
  "parseCondition pf 0 condStr = None"
| "parseCondition pf (Suc n) condStr =
     (if Contains (ToUpper condStr) '' AND '' then
        mkNode ''AND'' (collect (map (parseCondition pf n) (Split condStr '' AND '')))
      else if Contains (ToUpper condStr) '' OR '' then
        mkNode ''OR'' (collect (map (parseCondition pf n) (Split condStr '' OR '')))
      else Some (parseSimple pf operators condStr))"

definition parseLimit :: "string \<Rightarrow> Query \<Rightarrow> error + Query" where
  \<comment> \<open>the block of \<^verbatim>\<open>Parse\<close> for LIMIT\<close>
  "parseLimit queryStr query =
     (let limitMatches = FindStringSubmatch limitRegex queryStr in
      if length limitMatches \<ge> 1
      then (case Atoi (limitMatches ! 0) of
              None \<Rightarrow> Inl NumError
            | Some limit \<Rightarrow> Inr (query\<lparr>Limit := limit\<rparr>))
      else Inr query)"

definition parseOffset :: "string \<Rightarrow> Query \<Rightarrow> error + Query" where
  \<comment> \<open>the block of \<^verbatim>\<open>Parse\<close> for OFFSET\<close>
  "parseOffset queryStr query =
     (let offsetMatches = FindStringSubmatch offsetRegex queryStr in
      if length offsetMatches \<ge> 1
      then (case Atoi (offsetMatches ! 0) of
              None \<Rightarrow> Inl NumError
            | Some offset \<Rightarrow> Inr (query\<lparr>Offset := offset\<rparr>))
      else Inr query)"

definition parseLimitOffset :: "string \<Rightarrow> Query \<Rightarrow> error + Query" where
  \<comment> \<open>the last two blocks of \<^verbatim>\<open>Parse\<close>: LIMIT, then OFFSET\<close>
  "parseLimitOffset queryStr query =
     (case parseLimit queryStr query of
        Inl e \<Rightarrow> Inl e
      | Inr query \<Rightarrow> parseOffset queryStr query)"

text \<open>
  The first three blocks of \<^verbatim>\<open>Parse\<close> (SELECT, FROM, WHERE) on their own: the query as it
  stands before the LIMIT block, or the error that ends \<^verbatim>\<open>Parse\<close> before it.
\<close>

definition parseHead :: "(string \<Rightarrow> real option) \<Rightarrow> nat \<Rightarrow> string \<Rightarrow> (error + Query) option" where
  "parseHead pf fuel queryStr =
     (let query = \<lparr>Select = [], From = [], Where = None, Limit = - 1, Offset = 0\<rparr>;
          selectMatches = FindStringSubmatch selectRegex queryStr
      in if length selectMatches < 1 then Some (Inl InvalidSelect)
         else
          (let fields = map TrimSpace (Split (selectMatches ! 0) '','');
               query = query\<lparr>Select := fields\<rparr>;
               fromMatches = FindStringSubmatch fromRegex queryStr
           in if length fromMatches < 1 then Some (Inl InvalidFrom)
              else
               (let query = query\<lparr>From := TrimSpace (fromMatches ! 0)\<rparr>;
                    whereMatches = FindStringSubmatch whereRegex queryStr
                in if length whereMatches \<ge> 1 then
                     (case parseCondition pf fuel (whereMatches ! 0) of
                        None \<Rightarrow> None
                      | Some (Inl e) \<Rightarrow> Some (Inl e)
                      | Some (Inr condition) \<Rightarrow> Some (Inr (query\<lparr>Where := Some condition\<rparr>)))
                   else Some (Inr query))))"

definition Parse :: "(string \<Rightarrow> real option) \<Rightarrow> nat \<Rightarrow> string \<Rightarrow> (error + Query) option" where
  "Parse pf fuel queryStr =
     (let query = \<lparr>Select = [], From = [], Where = None, Limit = - 1, Offset = 0\<rparr>;
          selectMatches = FindStringSubmatch selectRegex queryStr
      in if length selectMatches < 1 then Some (Inl InvalidSelect)
         else
          (let fields = map TrimSpace (Split (selectMatches ! 0) '','');
               query = query\<lparr>Select := fields\<rparr>;
               fromMatches = FindStringSubmatch fromRegex queryStr
           in if length fromMatches < 1 then Some (Inl InvalidFrom)
              else
               (let query = query\<lparr>From := TrimSpace (fromMatches ! 0)\<rparr>;
                    whereMatches = FindStringSubmatch whereRegex queryStr
                in if length whereMatches \<ge> 1 then
                     (case parseCondition pf fuel (whereMatches ! 0) of
                        None \<Rightarrow> None
                      | Some (Inl e) \<Rightarrow> Some (Inl e)
                      | Some (Inr condition) \<Rightarrow>
                          Some (parseLimitOffset queryStr (query\<lparr>Where := Some condition\<rparr>)))
                   else Some (parseLimitOffset queryStr query))))"

section \<open>The storage backends\<close>

text \<open>
  A Go map with string keys is an association list with distinct keys; ranging over the
  map enumerates the list. Go leaves the order of this enumeration open, and no
  statement below depends on it. A method that changes its receiver returns the new
  receiver next to its error (\<open>None\<close> is Go's \<^verbatim>\<open>nil\<close> error).
\<close>

record MemoryStorage =
  Docs :: "(string \<times> Document) list"

definition NewMemoryStorage :: MemoryStorage where
  "NewMemoryStorage = \<lparr>Docs = []\<rparr>"

definition Memory_Save :: "MemoryStorage \<Rightarrow> Document \<Rightarrow> error option \<times> MemoryStorage" where
  "Memory_Save ms doc = (None, ms\<lparr>Docs := AList.update (ID doc) doc (Docs ms)\<rparr>)"

definition Memory_Get :: "MemoryStorage \<Rightarrow> string \<Rightarrow> error + Document" where
  "Memory_Get ms docID = (case map_of (Docs ms) docID of None \<Rightarrow> Inl NotFound | Some doc \<Rightarrow> Inr doc)"

definition Memory_Delete :: "MemoryStorage \<Rightarrow> string \<Rightarrow> error option \<times> MemoryStorage" where
  \<comment> \<open>\<^verbatim>\<open>delete(ms.Docs, id); return nil\<close>\<close>
  "Memory_Delete ms docID = (None, ms\<lparr>Docs := AList.delete docID (Docs ms)\<rparr>)"

definition Memory_List :: "MemoryStorage \<Rightarrow> error + Document list" where
  "Memory_List ms = Inr (map snd (Docs ms))"

text \<open>
  The file backend keeps one file \<^verbatim>\<open><id>.json\<close> per document in its directory. The
  directory is the field \<open>Files\<close> of the model, from identifier to the document that was
  marshalled into the file. Reading a file back unmarshals into
  \<^verbatim>\<open>map[string]interface{}\<close>, where every JSON number becomes a \<^verbatim>\<open>float64\<close>
  (\<open>unmarshalled\<close>). The only failure of the file system in the model is the missing file:
  \<^verbatim>\<open>os.ReadFile\<close> and \<^verbatim>\<open>os.Remove\<close> fail on it, \<^verbatim>\<open>os.WriteFile\<close> succeeds.
\<close>

fun unmarshalled :: "val \<Rightarrow> val" where
  "unmarshalled (VInt i) = VFloat (of_int i)"
| "unmarshalled (VSeq xs) = VSeq (map unmarshalled xs)"
| "unmarshalled (VMap kvs) = VMap (map (\<lambda>(k, v). (k, unmarshalled v)) kvs)"
| "unmarshalled v = v"

definition reload :: "Document \<Rightarrow> Document" where
  "reload doc = doc\<lparr>Content := map_option unmarshalled \<circ> Content doc\<rparr>"

record FileStorage =
  Dir :: string
  UseCache :: bool
  Cache :: "(string \<times> Document) list"
  Files :: "(string \<times> Document) list"

definition NewFileStorage :: "string \<Rightarrow> bool \<Rightarrow> FileStorage" where
  \<comment> \<open>on a directory without document files\<close>
  "NewFileStorage dir useCache = \<lparr>Dir = dir, UseCache = useCache, Cache = [], Files = []\<rparr>"

definition File_Save :: "FileStorage \<Rightarrow> Document \<Rightarrow> error option \<times> FileStorage" where
  "File_Save fs doc =
     (let fs = fs\<lparr>Files := AList.update (ID doc) doc (Files fs)\<rparr>
      in (None, if UseCache fs then fs\<lparr>Cache := AList.update (ID doc) doc (Cache fs)\<rparr> else fs))"

definition File_Get :: "FileStorage \<Rightarrow> string \<Rightarrow> (error + Document) \<times> FileStorage" where
  "File_Get fs docID =
     (case (if UseCache fs then map_of (Cache fs) docID else None) of
        Some doc \<Rightarrow> (Inr doc, fs)
      | None \<Rightarrow>
         (case map_of (Files fs) docID of
            None \<Rightarrow> (Inl NotFound, fs)
          | Some stored \<Rightarrow>
             (let doc = reload stored
              in (Inr doc, if UseCache fs then fs\<lparr>Cache := AList.update docID doc (Cache fs)\<rparr>
                           else fs))))"

definition File_Delete :: "FileStorage \<Rightarrow> string \<Rightarrow> error option \<times> FileStorage" where
  "File_Delete fs docID =
     (case map_of (Files fs) docID of
        None \<Rightarrow> (Some NotFound, fs)
      | Some _ \<Rightarrow>
         (let fs = fs\<lparr>Files := AList.delete docID (Files fs)\<rparr>
          in (None, if UseCache fs then fs\<lparr>Cache := AList.delete docID (Cache fs)\<rparr> else fs)))"

fun File_List_loop :: "FileStorage \<Rightarrow> string list \<Rightarrow> Document list \<times> FileStorage" where
  "File_List_loop fs [] = ([], fs)"
| "File_List_loop fs (docID # ids) =
     (case File_Get fs docID of
        (Inl err, fs') \<Rightarrow> File_List_loop fs' ids
      | (Inr doc, fs') \<Rightarrow> (let (docs, fs'') = File_List_loop fs' ids in (doc # docs, fs'')))"

definition File_List :: "FileStorage \<Rightarrow> (error + Document list) \<times> FileStorage" where
  "File_List fs = (let (docs, fs') = File_List_loop fs (map fst (Files fs)) in (Inr docs, fs'))"

datatype Storage = Memory MemoryStorage | File FileStorage

fun Storage_Save :: "Storage \<Rightarrow> Document \<Rightarrow> error option \<times> Storage" where
  "Storage_Save (Memory ms) doc = map_prod id Memory (Memory_Save ms doc)"
| "Storage_Save (File fs) doc = map_prod id File (File_Save fs doc)"

fun Storage_Get :: "Storage \<Rightarrow> string \<Rightarrow> (error + Document) \<times> Storage" where
  "Storage_Get (Memory ms) docID = (Memory_Get ms docID, Memory ms)"
| "Storage_Get (File fs) docID = map_prod id File (File_Get fs docID)"

fun Storage_Delete :: "Storage \<Rightarrow> string \<Rightarrow> error option \<times> Storage" where
  "Storage_Delete (Memory ms) docID = map_prod id Memory (Memory_Delete ms docID)"
| "Storage_Delete (File fs) docID = map_prod id File (File_Delete fs docID)"

fun Storage_List :: "Storage \<Rightarrow> (error + Document list) \<times> Storage" where
  "Storage_List (Memory ms) = (Memory_List ms, Memory ms)"
| "Storage_List (File fs) = map_prod id File (File_List fs)"

section \<open>The query executor\<close>

type_synonym row = "string \<rightharpoonup> val"

definition project :: "string list \<Rightarrow> Document \<Rightarrow> row" where
  "project select doc =
     (if length select = 1 \<and> select ! 0 = ''*'' then
        (Content doc)(''_id'' \<mapsto> VStr (ID doc))
      else
        foldl (\<lambda>result field.
                 if field = ''_id'' then result(''_id'' \<mapsto> VStr (ID doc))
                 else (case getNestedValue (Content doc) field of
                         Some v \<Rightarrow> result(field \<mapsto> v)
                       | None \<Rightarrow> result))
              Map.empty select)"

definition passes :: "Condition option \<Rightarrow> Document \<Rightarrow> bool" where
  \<comment> \<open>\<^verbatim>\<open>query.Where == nil || qe.evalCondition(doc, query.Where)\<close>\<close>
  "passes w doc = (case w of None \<Rightarrow> True | Some cond \<Rightarrow> evalCondition doc cond)"

definition applyOffset :: "int \<Rightarrow> row list \<Rightarrow> row list" where
  "applyOffset offset results =
     (if offset > 0 \<and> offset < int (length results) then drop (nat offset) results
      else results)"

definition applyLimit :: "int \<Rightarrow> row list \<Rightarrow> row list" where
  "applyLimit limit results =
     (if limit \<ge> 0 \<and> limit < int (length results) then take (nat limit) results
      else results)"

text \<open>
  \<open>Execute\<close> reads the collections of the executor (\<^verbatim>\<open>qe.DB\<close>, from name to the storage
  of the collection) and returns the rows; the cache that a file backend fills while
  it lists its documents is not part of the result.
\<close>

definition Execute :: "(string \<rightharpoonup> Storage) \<Rightarrow> Query \<Rightarrow> error + row list" where
  "Execute db query =
     (case db (From query) of
        None \<Rightarrow> Inl CollectionNotFound
      | Some storage \<Rightarrow>
         (case fst (Storage_List storage) of
            Inl err \<Rightarrow> Inl err
          | Inr docs \<Rightarrow>
             (let results = map (project (Select query)) (filter (passes (Where query)) docs);
                  results = applyOffset (Offset query) results;
                  results = applyLimit (Limit query) results
              in Inr results)))"

definition DB_Query :: "(string \<Rightarrow> real option) \<Rightarrow> nat \<Rightarrow> (string \<rightharpoonup> Storage) \<Rightarrow> string
                        \<Rightarrow> (error + row list) option" where
  \<comment> \<open>\<^verbatim>\<open>DB.Query\<close>: parse, then execute\<close>
  "DB_Query pf fuel db queryStr =
     (case Parse pf fuel queryStr of
        None \<Rightarrow> None
      | Some (Inl err) \<Rightarrow> Some (Inl err)
      | Some (Inr query) \<Rightarrow> Some (Execute db query))"

section \<open>The B-tree index\<close>

datatype BTreeNode =
  BTreeNode (Keys: "val list") (Values: "string list list") (NodeChildren: "BTreeNode list")
            (IsLeaf: bool)

record BTreeIndex =
  Root :: BTreeNode
  Field :: string
  Order :: int
  DocIDs :: "string \<rightharpoonup> val"

definition NewBTreeIndex :: "string \<Rightarrow> int \<Rightarrow> BTreeIndex" where
  "NewBTreeIndex field order =
     \<lparr>Root = BTreeNode [] [] [] True, Field = field, Order = order, DocIDs = Map.empty\<rparr>"

definition findPos :: "val list \<Rightarrow> val \<Rightarrow> nat" where
  \<comment> \<open>\<^verbatim>\<open>pos := 0; for pos < len(node.Keys) && compare(node.Keys[pos], key) < 0 { pos++ }\<close>\<close>
  "findPos keys key = length (takeWhile (\<lambda>k. compare k key < 0) keys)"

definition splitIfNeeded :: "int \<Rightarrow> BTreeNode \<Rightarrow> error option \<times> BTreeNode" where
  \<comment> \<open>both paths return \<^verbatim>\<open>nil\<close> and leave the node as it is\<close>
  "splitIfNeeded order node =
     (if int (length (Keys node)) \<le> order then (None, node) else (None, node))"

text \<open>
  The loop \<^verbatim>\<open>for i := len(node.Keys) - 1; i > pos; i-- { Keys[i] = Keys[i-1]; Values[i] = Values[i-1] }\<close>
  that opens the slot for a new key. An index out of range panics (\<open>None\<close>).
\<close>

function shiftRight :: "val list \<Rightarrow> string list list \<Rightarrow> nat \<Rightarrow> nat
                        \<Rightarrow> (val list \<times> string list list) option" where
  "shiftRight keys values i pos =
     (if i > pos then
        (if i < length keys \<and> i < length values
         then shiftRight (keys[i := keys ! (i - 1)]) (values[i := values ! (i - 1)]) (i - 1) pos
         else None)
      else Some (keys, values))"
  by pat_completeness auto
termination
  by (relation "measure (\<lambda>(keys, values, i, pos). i)") auto

declare shiftRight.simps [simp del]

definition insertLeaf :: "int \<Rightarrow> BTreeNode \<Rightarrow> nat \<Rightarrow> val \<Rightarrow> string list
                          \<Rightarrow> error option \<times> BTreeNode" where
  \<comment> \<open>a new key in a leaf: append a slot to both slices, shift, store, \<^verbatim>\<open>splitIfNeeded\<close>\<close>
  "insertLeaf order node pos key docIDs =
     (let keys = Keys node @ [VNil]; values = Values node @ [[]]
      in case shiftRight keys values (length keys - 1) pos of
           None \<Rightarrow> (Some Panic, node)
         | Some (keys, values) \<Rightarrow>
             (if pos < length keys \<and> pos < length values
              then splitIfNeeded order
                     (BTreeNode (keys[pos := key]) (values[pos := docIDs])
                                (NodeChildren node) (IsLeaf node))
              else (Some Panic, node)))"

lemma size_nth_child [termination_simp]:
  "n < length (children :: BTreeNode list) \<Longrightarrow>
     size (children ! n) < Suc (size_list size children)"
proof (induction children arbitrary: n)
  case Nil
  then show ?case by simp
next
  case (Cons c cs)
  then show ?case by (cases n) fastforce+
qed

fun insert :: "int \<Rightarrow> BTreeNode \<Rightarrow> val \<Rightarrow> string list \<Rightarrow> error option \<times> BTreeNode" where
  "insert order (BTreeNode keys values children isLeaf) key docIDs =
     (let node = BTreeNode keys values children isLeaf; pos = findPos keys key
      in if pos < length keys \<and> compare (keys ! pos) key = 0 then
           (if pos < length values
            then (None, BTreeNode keys (values[pos := docIDs]) children isLeaf)
            else (Some Panic, node))
         else if isLeaf then insertLeaf order node pos key docIDs
         else
           (let childPos = (if pos = length keys then int (length children) - 1 else int pos)
            in if 0 \<le> childPos \<and> nat childPos < length children then
                 (case insert order (children ! nat childPos) key docIDs of
                    (err, child) \<Rightarrow>
                      (err, BTreeNode keys values (children[nat childPos := child]) isLeaf))
               else (Some Panic, node)))"

fun search :: "BTreeNode \<Rightarrow> val \<Rightarrow> error + string list" where
  "search (BTreeNode keys values children isLeaf) key =
     (let pos = findPos keys key
      in if pos < length keys \<and> compare (keys ! pos) key = 0 then
           (if pos < length values then Inr (values ! pos) else Inl Panic)
         else if isLeaf then Inr []
         else
           (let childPos = (if pos \<ge> length children then int (length children) - 1
                            else int pos)
            in if 0 \<le> childPos \<and> nat childPos < length children
               then search (children ! nat childPos) key
               else Inl Panic))"

definition Search :: "BTreeIndex \<Rightarrow> string \<Rightarrow> val \<Rightarrow> error + string list" where
  "Search bt field v = (if field \<noteq> Field bt then Inl FieldMismatch else search (Root bt) v)"

definition Add :: "BTreeIndex \<Rightarrow> Document \<Rightarrow> error option \<times> BTreeIndex" where
  "Add bt doc =
     (case getNestedValue (Content doc) (Field bt) of
        None \<Rightarrow> (None, bt)
      | Some v \<Rightarrow>
         (let bt = bt\<lparr>DocIDs := (DocIDs bt)(ID doc \<mapsto> v)\<rparr>
          in case Search bt (Field bt) v of
               Inl err \<Rightarrow> (Some Panic, bt)
             | Inr ids \<Rightarrow>
                 (let found = (ID doc \<in> set ids);
                      ids = (if \<not> found then ids @ [ID doc] else ids)
                  in case insert (Order bt) (Root bt) v ids of
                       (err, newRoot) \<Rightarrow> (err, bt\<lparr>Root := newRoot\<rparr>))))"

definition removeAt :: "BTreeNode \<Rightarrow> nat \<Rightarrow> error option \<times> BTreeNode" where
  \<comment> \<open>\<^verbatim>\<open>copy(s[pos:], s[pos+1:]); s = s[:len(s)-1]\<close> on \<open>Keys\<close> and on \<open>Values\<close>\<close>
  "removeAt node pos =
     (if pos + 1 \<le> length (Keys node) \<and> pos + 1 \<le> length (Values node)
      then (None, BTreeNode (take pos (Keys node) @ drop (pos + 1) (Keys node))
                            (take pos (Values node) @ drop (pos + 1) (Values node))
                            (NodeChildren node) (IsLeaf node))
      else (Some Panic, node))"

fun remove :: "BTreeNode \<Rightarrow> val \<Rightarrow> error option \<times> BTreeNode" where
  "remove (BTreeNode keys values children isLeaf) key =
     (let node = BTreeNode keys values children isLeaf; pos = findPos keys key
      in if pos < length keys \<and> compare (keys ! pos) key = 0 then removeAt node pos
         else if isLeaf then (None, node)
         else
           (let childPos = (if pos \<ge> length children then int (length children) - 1
                            else int pos)
            in if 0 \<le> childPos \<and> nat childPos < length children then
                 (case remove (children ! nat childPos) key of
                    (err, child) \<Rightarrow>
                      (err, BTreeNode keys values (children[nat childPos := child]) isLeaf))
               else (Some Panic, node)))"

definition Remove :: "BTreeIndex \<Rightarrow> string \<Rightarrow> error option \<times> BTreeIndex" where
  \<comment> \<open>\<^verbatim>\<open>make([]string, 0, len(ids)-1)\<close> panics when \<open>ids\<close> is empty\<close>
  "Remove bt docID =
     (case DocIDs bt docID of
        None \<Rightarrow> (None, bt)
      | Some v \<Rightarrow>
         (case Search bt (Field bt) v of
            Inl err \<Rightarrow> (Some Panic, bt)
          | Inr ids \<Rightarrow>
             (if ids = [] then (Some Panic, bt)
              else
               (let newIDs = filter (\<lambda>i. i \<noteq> docID) ids;
                    bt = bt\<lparr>DocIDs := (DocIDs bt)(docID := None)\<rparr>
                in case (if length newIDs > 0 then insert (Order bt) (Root bt) v newIDs
                         else remove (Root bt) v) of
                     (err, newRoot) \<Rightarrow> (err, bt\<lparr>Root := newRoot\<rparr>)))))"

section \<open>Collections\<close>

text \<open>
  \<open>Indexes\<close> is a Go map from field name to index; the B-tree index is the only
  implementation of the interface \<^verbatim>\<open>index.Index\<close>.
\<close>

record Collection =
  Name :: string
  Storage :: Storage
  Indexes :: "(string \<times> BTreeIndex) list"

fun addToIndexes :: "(string \<times> BTreeIndex) list \<Rightarrow> Document
                     \<Rightarrow> error option \<times> (string \<times> BTreeIndex) list" where
  \<comment> \<open>\<^verbatim>\<open>for _, idx := range c.Indexes { if err := idx.Add(doc); err != nil { return err } }\<close>\<close>
  "addToIndexes [] doc = (None, [])"
| "addToIndexes ((field, idx) # rest) doc =
     (case Add idx doc of
        (Some err, idx') \<Rightarrow> (Some err, (field, idx') # rest)
      | (None, idx') \<Rightarrow>
          (case addToIndexes rest doc of (err, rest') \<Rightarrow> (err, (field, idx') # rest')))"

fun removeFromIndexes :: "(string \<times> BTreeIndex) list \<Rightarrow> string
                          \<Rightarrow> error option \<times> (string \<times> BTreeIndex) list" where
  "removeFromIndexes [] docID = (None, [])"
| "removeFromIndexes ((field, idx) # rest) docID =
     (case Remove idx docID of
        (Some err, idx') \<Rightarrow> (Some err, (field, idx') # rest)
      | (None, idx') \<Rightarrow>
          (case removeFromIndexes rest docID of (err, rest') \<Rightarrow> (err, (field, idx') # rest')))"

definition InsertDocument :: "Collection \<Rightarrow> Document \<Rightarrow> error option \<times> Collection" where
  "InsertDocument c doc =
     (if ID doc = [] then (Some EmptyID, c)
      else (case Storage_Save (Storage c) doc of
              (Some err, st) \<Rightarrow> (Some err, c\<lparr>Storage := st\<rparr>)
            | (None, st) \<Rightarrow>
                (case addToIndexes (Indexes c) doc of
                   (err, idxs) \<Rightarrow> (err, c\<lparr>Storage := st, Indexes := idxs\<rparr>))))"

definition UpdateDocument :: "Collection \<Rightarrow> Document \<Rightarrow> error option \<times> Collection" where
  "UpdateDocument c doc =
     (if ID doc = [] then (Some EmptyID, c)
      else
       (case Storage_Get (Storage c) (ID doc) of
          (got, st) \<Rightarrow>
           (case (case got of
                    Inl err \<Rightarrow> (None, Indexes c)
                  | Inr oldDoc \<Rightarrow> removeFromIndexes (Indexes c) (ID oldDoc)) of
              (Some err, idxs) \<Rightarrow> (Some err, c\<lparr>Storage := st, Indexes := idxs\<rparr>)
            | (None, idxs) \<Rightarrow>
               (case Storage_Save st doc of
                  (Some err, st') \<Rightarrow> (Some err, c\<lparr>Storage := st', Indexes := idxs\<rparr>)
                | (None, st') \<Rightarrow>
                   (case addToIndexes idxs doc of
                      (err, idxs') \<Rightarrow> (err, c\<lparr>Storage := st', Indexes := idxs'\<rparr>))))))"

definition DeleteDocument :: "Collection \<Rightarrow> string \<Rightarrow> error option \<times> Collection" where
  "DeleteDocument c docID =
     (case removeFromIndexes (Indexes c) docID of
        (Some err, idxs) \<Rightarrow> (Some err, c\<lparr>Indexes := idxs\<rparr>)
      | (None, idxs) \<Rightarrow>
         (case Storage_Delete (Storage c) docID of
            (err, st) \<Rightarrow> (err, c\<lparr>Storage := st, Indexes := idxs\<rparr>)))"

fun addAll :: "BTreeIndex \<Rightarrow> Document list \<Rightarrow> error option \<times> BTreeIndex" where
  "addAll idx [] = (None, idx)"
| "addAll idx (doc # docs) =
     (case Add idx doc of (Some err, idx') \<Rightarrow> (Some err, idx') | (None, idx') \<Rightarrow> addAll idx' docs)"

definition CreateIndex :: "Collection \<Rightarrow> string \<Rightarrow> string \<Rightarrow> int \<Rightarrow> error option \<times> Collection" where
  "CreateIndex c field indexType order =
     (if map_of (Indexes c) field \<noteq> None then (Some IndexExists, c)
      else if indexType \<noteq> ''btree'' then (Some UnknownIndexType, c)
      else
       (let idx = NewBTreeIndex field order
        in case Storage_List (Storage c) of
             (Inl err, st) \<Rightarrow>
               (Some err, c\<lparr>Storage := st, Indexes := AList.update field idx (Indexes c)\<rparr>)
           | (Inr docs, st) \<Rightarrow>
               (case addAll idx docs of
                  (err, idx') \<Rightarrow>
                    (err, c\<lparr>Storage := st, Indexes := AList.update field idx' (Indexes c)\<rparr>))))"

fun getAll :: "Storage \<Rightarrow> string list \<Rightarrow> Document list \<times> Storage" where
  \<comment> \<open>\<^verbatim>\<open>for _, id := range ids { doc, err := c.Storage.Get(id); if err != nil { continue } ... }\<close>\<close>
  "getAll st [] = ([], st)"
| "getAll st (docID # ids) =
     (case Storage_Get st docID of
        (Inl err, st') \<Rightarrow> getAll st' ids
      | (Inr doc, st') \<Rightarrow> (case getAll st' ids of (docs, st'') \<Rightarrow> (doc # docs, st'')))"

definition FindByIndex :: "Collection \<Rightarrow> string \<Rightarrow> val \<Rightarrow> (error + Document list) \<times> Collection" where
  "FindByIndex c field v =
     (case map_of (Indexes c) field of
        None \<Rightarrow> (Inl IndexNotFound, c)
      | Some idx \<Rightarrow>
         (case Search idx field v of
            Inl err \<Rightarrow> (Inl err, c)
          | Inr ids \<Rightarrow>
             (case getAll (Storage c) ids of (docs, st) \<Rightarrow> (Inr docs, c\<lparr>Storage := st\<rparr>))))"

section \<open>Notions of the specification and example data\<close>

text \<open>
  The pairs of types that the typed comparison rules relate: two strings, two numbers
  (integer or float, in any combination), two booleans. Every other pair is
  incomparable.
\<close>

definition comparable :: "val \<Rightarrow> val \<Rightarrow> bool" where
  "comparable a b =
     (case (a, b) of
        (VStr _, VStr _) \<Rightarrow> True
      | (VFloat _, VFloat _) \<Rightarrow> True
      | (VFloat _, VInt _) \<Rightarrow> True
      | (VInt _, VInt _) \<Rightarrow> True
      | (VInt _, VFloat _) \<Rightarrow> True
      | (VBool _, VBool _) \<Rightarrow> True
      | _ \<Rightarrow> False)"

definition aged :: "string \<Rightarrow> int \<Rightarrow> Document" where
  "aged docID age = \<lparr>ID = docID, Content = [''age'' \<mapsto> VInt age]\<rparr>"

definition three_adds :: BTreeIndex where
  \<comment> \<open>an index of order 2 after \<open>Add\<close> of three documents with distinct keys\<close>
  "three_adds = snd (Add (snd (Add (snd (Add (NewBTreeIndex ''age'' 2) (aged ''u1'' 30)))
                                   (aged ''u2'' 10)))
                         (aged ''u3'' 20))"

definition users0 :: Collection where
  \<comment> \<open>an empty in-memory collection with an index on \<open>age\<close>\<close>
  "users0 = snd (CreateIndex \<lparr>Name = ''users'', Storage = Memory NewMemoryStorage, Indexes = []\<rparr>
                             ''age'' ''btree'' 5)"

definition seed_u1 :: Document where
  "seed_u1 = \<lparr>ID = ''u1'', Content = [''name'' \<mapsto> VStr ''Ivan'', ''email'' \<mapsto> VStr ''i@x'',
                                       ''active'' \<mapsto> VBool True]\<rparr>"

definition seed_u2 :: Document where
  "seed_u2 = \<lparr>ID = ''u2'', Content = [''name'' \<mapsto> VStr ''Mara'', ''active'' \<mapsto> VBool False]\<rparr>"

text \<open>
  A keyword that is followed by a number: the text starts with the keyword (in any
  case, as the flag \<^verbatim>\<open>(?i)\<close> reads it), then comes white space, then a digit.
  \<open>number_at\<close> returns the digits that follow there, up to the first character that is
  no digit. \<open>first_number\<close> looks for the leftmost such place in the text.
\<close>

definition number_at :: "string \<Rightarrow> string \<Rightarrow> string option" where
  "number_at kw s =
     (case lit_rest kw s of
        None \<Rightarrow> None
      | Some r \<Rightarrow>
          (if takeWhile isReSpace r \<noteq> [] \<and> takeWhile isDigit (dropWhile isReSpace r) \<noteq> []
           then Some (takeWhile isDigit (dropWhile isReSpace r)) else None))"

fun first_number :: "string \<Rightarrow> string \<Rightarrow> string option" where
  "first_number kw [] = number_at kw []"
| "first_number kw (c # cs) =
     (case number_at kw (c # cs) of Some ds \<Rightarrow> Some ds | None \<Rightarrow> first_number kw cs)"

definition five_docs :: "Document list" where
  "five_docs = [aged ''d1'' 1, aged ''d2'' 2, aged ''d3'' 3, aged ''d4'' 4, aged ''d5'' 5]"

definition items_store :: Storage where
  "items_store = Memory \<lparr>Docs = map (\<lambda>doc. (ID doc, doc)) five_docs\<rparr>"

definition items_db :: "string \<rightharpoonup> Storage" where
  "items_db = [''items'' \<mapsto> items_store]"

definition users_db :: "Document list \<Rightarrow> (string \<rightharpoonup> Storage)" where
  "users_db docs = [''users'' \<mapsto> Memory \<lparr>Docs = map (\<lambda>doc. (ID doc, doc)) docs\<rparr>]"

section \<open>The index: node size and stale entries\<close>

text \<open>
  C1. The claim: after every \<open>Add\<close> no node holds more than \<open>Order\<close> keys, because a node
  with too many keys is split. In the code \<open>splitIfNeeded\<close> returns the node as it is on
  both of its paths, so the root leaf takes every key: an index of order 2 holds three
  keys in its root after three documents with distinct values were added.
\<close>

theorem C1_root_exceeds_order:
  "Order three_adds = 2 \<and>
   Root three_adds =
     BTreeNode [VInt 10, VInt 20, VInt 30] [[''u2''], [''u3''], [''u1'']] [] True \<and>
   length (Keys (Root three_adds)) = 3"
  by code_simp

text \<open>
  C4. The claim: inserting a document under an identifier that is already stored, with
  another value of the indexed field, leaves one index entry for the identifier, under
  the final value. \<open>InsertDocument\<close> only adds: after \<open>u1\<close> was inserted with age 30 and
  again with age 31, the index still lists \<open>u1\<close> under 30 (and under 31), and
  \<open>FindByIndex\<close> for age 30 returns the document whose age is 31.
  \<open>UpdateDocument\<close>, which removes the old entry first, leaves the single entry.
\<close>

theorem C4_stale_index_entry:
  "(case InsertDocument (snd (InsertDocument users0 (aged ''u1'' 30))) (aged ''u1'' 31) of
      (err, c) \<Rightarrow>
        err = None \<and>
        map (\<lambda>(field, idx). (field, Root idx)) (Indexes c) =
          [(''age'', BTreeNode [VInt 30, VInt 31] [[''u1''], [''u1'']] [] True)] \<and>
        map_option (\<lambda>idx. Search idx ''age'' (VInt 30)) (map_of (Indexes c) ''age'') =
          Some (Inr [''u1'']) \<and>
        map_sum (\<lambda>err. err) (map (\<lambda>doc. (ID doc, Content doc ''age'')))
                (fst (FindByIndex c ''age'' (VInt 30))) =
          Inr [(''u1'', Some (VInt 31))]) \<and>
   (case UpdateDocument (snd (InsertDocument users0 (aged ''u1'' 30))) (aged ''u1'' 31) of
      (err, c) \<Rightarrow>
        err = None \<and>
        map (\<lambda>(field, idx). (field, Root idx)) (Indexes c) =
          [(''age'', BTreeNode [VInt 31] [[''u1'']] [] True)])"
  by code_simp

section \<open>The storage backends: deleting an absent document\<close>

text \<open>
  C5. The claim: in both backends \<open>Delete\<close> of an identifier that is not stored fails
  with NotFound. The file backend does (removing the missing file fails); the in-memory
  backend deletes from its map and returns no error, whatever the identifier, and so
  does \<open>DeleteDocument\<close> on a collection that it backs.
\<close>

theorem C5_memory_delete_of_absent_succeeds:
  "(\<forall>ms docID. fst (Memory_Delete ms docID) = None) \<and>
   fst (Storage_Delete (Memory NewMemoryStorage) ''ghost'') = None \<and>
   fst (DeleteDocument users0 ''ghost'') = None \<and>
   fst (Storage_Delete (File (NewFileStorage ''data'' True)) ''ghost'') = Some NotFound"
proof -
  have "fst (DeleteDocument users0 ''ghost'') = None"
    by code_simp
  then show ?thesis
    by (simp add: Memory_Delete_def File_Delete_def NewFileStorage_def NewMemoryStorage_def)
qed

section \<open>Comparison and condition evaluation\<close>

text \<open>
  C2. The claim: comparing an integer with a float compares the integer, as a float,
  with the float, so a field holding the integer 3 does not satisfy \<^verbatim>\<open>field = 3.5\<close>. The
  comparison of the index does this. The comparison of the query executor converts the
  float to an integer instead, so 3 and 3.5 compare equal and the condition holds.
\<close>

theorem C2_integer_truncates_float:
  "qe_compare (VInt 3) (VFloat 3.5) = 0 \<and> compare (VInt 3) (VFloat 3.5) = - 1 \<and>
   evalCondition \<lparr>ID = ''d1'', Content = [''n'' \<mapsto> VInt 3]\<rparr>
                 (Condition (VStr ''n'') ''='' (VFloat 3.5) [] [])"
  by (simp add: float_to_int_def three_way_def getNestedValue_def compareValues_def equals_def)

section \<open>Parsing conditions\<close>

lemma lower_and_upper: "Contains (ToUpper ''age > 25 and active = true'') '' AND ''"
  by code_simp

lemma lower_and_split:
  "Split ''age > 25 and active = true'' '' AND '' = [''age > 25 and active = true'']"
  by code_simp

lemma lower_and_diverges: "parseCondition pf fuel ''age > 25 and active = true'' = None"
  by (induction fuel) (simp_all add: lower_and_upper lower_and_split mkNode_def)

lemma upper_and_parses:
  "parseCondition pf 2 ''age > 25 AND active = true'' =
   Some (Inr (Condition VNil [] VNil ''AND''
                [Condition (VStr ''age'') ''>'' (VInt 25) [] [],
                 Condition (VStr ''active'') ''='' (VBool True) [] []]))"
  by code_simp

text \<open>
  C3. The claim: \<open>parseCondition\<close> returns on every text, and a condition with a lowercase
  connective is parsed like its uppercase spelling. The test for the connective
  ignores case, but the split is on the uppercase text \<^verbatim>\<open>" AND "\<close> only: on
  \<^verbatim>\<open>age > 25 and active = true\<close> the split returns the whole text as its single part, and
  the function calls itself on the same text again. No depth of calls is enough, while
  the uppercase spelling yields the AND node at depth 2.
\<close>

theorem C3_lowercase_and_never_returns:
  "(\<forall>fuel. parseCondition pf fuel ''age > 25 and active = true'' = None) \<and>
   parseCondition pf 2 ''age > 25 AND active = true'' =
     Some (Inr (Condition VNil [] VNil ''AND''
                  [Condition (VStr ''age'') ''>'' (VInt 25) [] [],
                   Condition (VStr ''active'') ''='' (VBool True) [] []]))"
  using lower_and_diverges upper_and_parses by blast

lemma compare_incomparable: "\<not> comparable a b \<Longrightarrow> compare a b = 0"
  by (cases a; cases b) (simp_all add: comparable_def)

lemma qe_compare_incomparable: "\<not> comparable a b \<Longrightarrow> qe_compare a b = 0"
  by (cases a; cases b) (simp_all add: comparable_def)

text \<open>
  C6. Values of incomparable types compare as equal, in the index and in the query
  executor: both comparisons return 0, so \<open>=\<close>, \<open>>=\<close> and \<open><=\<close> hold on such a pair and
  \<open>!=\<close>, \<open>>\<close> and \<open><\<close> do not.
\<close>

theorem C6_incomparable_types_compare_equal:
  assumes "\<not> comparable a b"
  shows "compare a b = 0 \<and> qe_compare a b = 0 \<and>
         compareValues a ''='' b \<and> compareValues a ''>='' b \<and> compareValues a ''<='' b \<and>
         \<not> compareValues a ''!='' b \<and> \<not> compareValues a ''>'' b \<and> \<not> compareValues a ''<'' b"
  using assms
  by (simp add: compare_incomparable qe_compare_incomparable compareValues_def equals_def)

theorem C6_witness:
  "\<not> comparable (VStr ''abc'') (VInt 5) \<and>
   compare (VStr ''abc'') (VInt 5) = 0 \<and> qe_compare (VStr ''abc'') (VInt 5) = 0 \<and>
   compareValues (VStr ''abc'') ''='' (VInt 5) \<and> \<not> compareValues (VStr ''abc'') ''!='' (VInt 5) \<and>
   \<not> comparable (VBool True) (VStr ''true'') \<and>
   qe_compare (VBool True) (VStr ''true'') = 0 \<and> \<not> compareValues (VBool True) ''<'' (VStr ''true'')"
proof -
  have h1: "\<not> comparable (VStr ''abc'') (VInt 5)" by (simp add: comparable_def)
  have h2: "\<not> comparable (VBool True) (VStr ''true'')" by (simp add: comparable_def)
  show ?thesis
    using h1 h2 C6_incomparable_types_compare_equal [OF h1]
      C6_incomparable_types_compare_equal [OF h2]
    by simp
qed

text \<open>
  C9. A leaf condition on a field other than \<open>_id\<close> that the document does not have is
  false under every operator (also under \<open>!=\<close>), so the document is filtered out and no
  error arises.
\<close>

theorem C9_absent_field_is_false:
  assumes "fieldName \<noteq> ''_id''" and "Content doc fieldName = None"
  shows "\<not> evalCondition doc (Condition (VStr fieldName) op right childOp []) \<and>
         filter (passes (Some (Condition (VStr fieldName) op right childOp []))) [doc] = []"
  using assms by (simp add: getNestedValue_def passes_def)

theorem C9_witness:
  "''email'' \<noteq> ''_id'' \<and> Content seed_u2 ''email'' = None \<and>
   \<not> evalCondition seed_u2 (Condition (VStr ''email'') ''!='' (VStr ''i@x'') [] [])"
proof -
  have h1: "''email'' \<noteq> ''_id''" by simp
  have h2: "Content seed_u2 ''email'' = None" by (simp add: seed_u2_def)
  show ?thesis
    using h1 h2 C9_absent_field_is_false [OF h1 h2, of "''!=''" "VStr ''i@x''" "[]"]
    by simp
qed

section \<open>Executing queries\<close>

lemma applyOffset_drop:
  "applyOffset off rows = (if int (length rows) \<le> off then rows else drop (nat off) rows)"
  by (simp add: applyOffset_def)

lemma parse_limit_offset:
  "Parse pf (Suc n) ''SELECT * FROM items LIMIT 2 OFFSET 1'' =
   Some (Inr \<lparr>Select = [''*''], From = ''items'', Where = None, Limit = 2, Offset = 1\<rparr>)"
  by code_simp

text \<open>
  C7. \<open>Execute\<close> applies the offset and then the limit to the filtered and projected
  rows: the first \<open>Offset\<close> rows are dropped unless the offset is at least the number of
  rows (then none is dropped); what remains is cut to \<open>Limit\<close> rows when the limit is not
  negative and less than the number of remaining rows. With limit 2 and offset 1 over
  five matching documents the result is the rows of the second and the third, in the
  order in which the backend lists them.
\<close>

theorem C7_offset_then_limit:
  assumes "db (From query) = Some st" and "fst (Storage_List st) = Inr docs"
  shows "Execute db query =
           Inr (let rows = map (project (Select query)) (filter (passes (Where query)) docs);
                    kept = (if int (length rows) \<le> Offset query then rows
                            else drop (nat (Offset query)) rows)
                in if 0 \<le> Limit query \<and> Limit query < int (length kept)
                   then take (nat (Limit query)) kept else kept) \<and>
         (Limit query = 2 \<and> Offset query = 1 \<and>
          filter (passes (Where query)) docs = [d1, d2, d3, d4, d5] \<longrightarrow>
          Execute db query = Inr [project (Select query) d2, project (Select query) d3])"
  using assms by (simp add: Execute_def applyOffset_drop applyLimit_def Let_def)

theorem C7_witness:
  "items_db ''items'' = Some items_store \<and>
   fst (Storage_List items_store) = Inr five_docs \<and>
   DB_Query Map.empty 1 items_db ''SELECT * FROM items LIMIT 2 OFFSET 1'' =
     Some (Inr [[''age'' \<mapsto> VInt 2, ''_id'' \<mapsto> VStr ''d2''],
                [''age'' \<mapsto> VInt 3, ''_id'' \<mapsto> VStr ''d3'']])"
proof -
  let ?q = "\<lparr>Select = [''*''], From = ''items'', Where = None, Limit = 2, Offset = 1\<rparr>"
  have h1: "items_db (From ?q) = Some items_store" by (simp add: items_db_def)
  have h2: "fst (Storage_List items_store) = Inr five_docs"
    by (simp add: items_store_def Memory_List_def five_docs_def comp_def)
  have "Execute items_db ?q = Inr [project (Select ?q) (aged ''d2'' 2), project (Select ?q) (aged ''d3'' 3)]"
    using h1 h2 C7_offset_then_limit [of items_db ?q items_store five_docs
        "aged ''d1'' 1" "aged ''d2'' 2" "aged ''d3'' 3" "aged ''d4'' 4" "aged ''d5'' 5"]
    by (simp add: passes_def five_docs_def)
  then show ?thesis
    using h1 h2 by (simp add: DB_Query_def parse_limit_offset project_def aged_def)
qed

lemma project_wildcard: "project [''*''] doc = (Content doc)(''_id'' \<mapsto> VStr (ID doc))"
  by (simp add: project_def)

lemma project_fold:
  "foldl (\<lambda>result field.
            if field = ''_id'' then result(''_id'' \<mapsto> VStr (ID doc))
            else (case getNestedValue (Content doc) field of
                    Some v \<Rightarrow> result(field \<mapsto> v)
                  | None \<Rightarrow> result))
         acc select f =
   (if f \<in> set select \<and> (f = ''_id'' \<or> Content doc f \<noteq> None)
    then (if f = ''_id'' then Some (VStr (ID doc)) else Content doc f)
    else acc f)"
proof (induction select arbitrary: acc)
  case Nil
  then show ?case by simp
next
  case (Cons x xs)
  show ?case
    by (simp add: Cons.IH getNestedValue_def split: option.splits) auto
qed

lemma project_fields:
  assumes "select \<noteq> [''*'']"
  shows "project select doc f =
           (if f \<in> set select
            then (if f = ''_id'' then Some (VStr (ID doc)) else Content doc f)
            else None)"
proof -
  have "\<not> (length select = 1 \<and> select ! 0 = ''*'')"
    using assms by (cases select) auto
  then show ?thesis
    by (auto simp add: project_def project_fold)
qed

lemma parse_seed_query:
  "Parse pf (Suc n) ''SELECT name, email FROM users WHERE active = true'' =
   Some (Inr \<lparr>Select = [''name'', ''email''], From = ''users'',
              Where = Some (Condition (VStr ''active'') ''='' (VBool True) [] []),
              Limit = - 1, Offset = 0\<rparr>)"
  by code_simp

lemma seed_query_rows:
  assumes "docs = [seed_u1, seed_u2] \<or> docs = [seed_u2, seed_u1]"
  shows "DB_Query pf (Suc n) (users_db docs) ''SELECT name, email FROM users WHERE active = true'' =
         Some (Inr [[''name'' \<mapsto> VStr ''Ivan'', ''email'' \<mapsto> VStr ''i@x'']])"
  using assms
  by (auto simp add: DB_Query_def parse_seed_query Execute_def users_db_def Memory_List_def
      passes_def seed_u1_def seed_u2_def getNestedValue_def compareValues_def equals_def
      bool_way_def applyOffset_def applyLimit_def project_def)

text \<open>
  C8. Projection. The wildcard copies every content field and adds \<open>_id\<close>. An explicit
  field list yields exactly the named fields that the document has, and \<open>_id\<close> (when
  named) from the identifier. The query \<^verbatim>\<open>SELECT name, email FROM users WHERE active = true\<close>
  over the two seed documents returns the single row of \<open>u1\<close> with its name and email,
  in whichever order the backend lists the documents.
\<close>

theorem C8_projection:
  "project [''*''] doc = (Content doc)(''_id'' \<mapsto> VStr (ID doc)) \<and>
   (select \<noteq> [''*''] \<longrightarrow>
      project select doc f =
        (if f \<in> set select
         then (if f = ''_id'' then Some (VStr (ID doc)) else Content doc f)
         else None)) \<and>
   DB_Query pf (Suc n) (users_db [seed_u1, seed_u2])
            ''SELECT name, email FROM users WHERE active = true'' =
     Some (Inr [[''name'' \<mapsto> VStr ''Ivan'', ''email'' \<mapsto> VStr ''i@x'']]) \<and>
   DB_Query pf (Suc n) (users_db [seed_u2, seed_u1])
            ''SELECT name, email FROM users WHERE active = true'' =
     Some (Inr [[''name'' \<mapsto> VStr ''Ivan'', ''email'' \<mapsto> VStr ''i@x'']])"
  using project_wildcard project_fields seed_query_rows by simp

theorem C8_witness:
  "[''_id'', ''email''] \<noteq> [''*''] \<and>
   project [''_id'', ''email''] seed_u1 ''_id'' = Some (VStr ''u1'') \<and>
   project [''_id'', ''email''] seed_u1 ''email'' = Some (VStr ''i@x'') \<and>
   project [''_id'', ''email''] seed_u1 ''name'' = None \<and>
   project [''_id'', ''email''] seed_u2 ''email'' = None \<and>
   DB_Query Map.empty 1 (users_db [seed_u1, seed_u2])
            ''SELECT name, email FROM users WHERE active = true'' =
     Some (Inr [[''name'' \<mapsto> VStr ''Ivan'', ''email'' \<mapsto> VStr ''i@x'']])"
  using C8_projection [of seed_u1 "[''_id'', ''email'']" "''_id''" Map.empty 0]
    C8_projection [of seed_u1 "[''_id'', ''email'']" "''email''" Map.empty 0]
    C8_projection [of seed_u1 "[''_id'', ''email'']" "''name''" Map.empty 0]
    C8_projection [of seed_u2 "[''_id'', ''email'']" "''email''" Map.empty 0]
  by (simp add: seed_u1_def seed_u2_def)

section \<open>LIMIT and OFFSET clauses without a number\<close>

text \<open>
  The expressions for LIMIT and OFFSET find a match exactly where a keyword is followed
  by a number, and capture its digits: what the backtracking search computes for them is
  what the plain scan \<open>first_number\<close> computes.
\<close>

lemma first_some_None: "first_some xs = None \<longleftrightarrow> (\<forall>x \<in> set xs. x = None)"
  by (induction xs rule: first_some.induct) auto

lemma rev_upt_from_1: "rev [Suc 0 ..< Suc (Suc m)] = Suc m # rev [Suc 0 ..< Suc m]"
  by simp

lemma rmatch_Digits:
  "rmatch [Atom Digits] t =
     (if takeWhile isDigit t = [] then None else Some [takeWhile isDigit t])"
proof (cases "length (takeWhile isDigit t)")
  case 0
  then show ?thesis by (simp add: rmatch.simps)
next
  case (Suc m)
  have "take (Suc m) t = takeWhile isDigit t"
    using Suc takeWhile_eq_take [of isDigit t] by simp
  moreover have "takeWhile isDigit t \<noteq> []"
    using Suc by auto
  ultimately show ?thesis
    using Suc by (simp del: upt_Suc add: rev_upt_from_1 rmatch.simps)
qed

lemma space_is_no_digit: "isReSpace c \<Longrightarrow> \<not> isDigit c"
  by (auto simp: isReSpace_def isDigit_def)

lemma no_digits_inside_spaces:
  assumes "k < length (takeWhile isReSpace r)"
  shows "takeWhile isDigit (drop k r) = []"
proof -
  have len: "k < length r"
    using assms length_takeWhile_le [of isReSpace r] by simp
  have "takeWhile isReSpace r ! k \<in> set (takeWhile isReSpace r)"
    using assms by simp
  then have "isReSpace (takeWhile isReSpace r ! k)"
    by (rule set_takeWhileD [THEN conjunct2])
  then have "isReSpace (r ! k)"
    using assms by (simp add: takeWhile_nth)
  then have "\<not> isDigit (r ! k)"
    by (rule space_is_no_digit)
  moreover have "drop k r = r ! k # drop (Suc k) r"
    using len by (simp add: Cons_nth_drop_Suc)
  ultimately show ?thesis by simp
qed

lemma spaces_then_digits:
  "first_some (map (\<lambda>k. rmatch [Atom Digits] (drop k r))
                   (rev [1 ..< Suc (length (takeWhile isReSpace r))])) =
     (if takeWhile isReSpace r \<noteq> [] \<and> takeWhile isDigit (dropWhile isReSpace r) \<noteq> []
      then Some [takeWhile isDigit (dropWhile isReSpace r)] else None)"
proof (cases "length (takeWhile isReSpace r)")
  case 0
  then show ?thesis by simp
next
  case (Suc m)
  have last: "drop (Suc m) r = dropWhile isReSpace r"
    using Suc dropWhile_eq_drop [of isReSpace r] by simp
  have nonempty: "takeWhile isReSpace r \<noteq> []"
    using Suc by auto
  have rest: "first_some (map (\<lambda>k. rmatch [Atom Digits] (drop k r)) (rev [1 ..< Suc m])) = None"
    unfolding first_some_None
  proof
    fix x assume "x \<in> set (map (\<lambda>k. rmatch [Atom Digits] (drop k r)) (rev [1 ..< Suc m]))"
    then have "x \<in> (\<lambda>k. rmatch [Atom Digits] (drop k r)) ` {Suc 0 ..< Suc m}"
      by (simp del: upt_Suc)
    then obtain k where k: "k \<in> {Suc 0 ..< Suc m}" and x: "x = rmatch [Atom Digits] (drop k r)"
      by blast
    have "takeWhile isDigit (drop k r) = []"
      using k Suc no_digits_inside_spaces [of k r] by simp
    then show "x = None"
      using x by (simp add: rmatch_Digits)
  qed
  show ?thesis
    using nonempty rest
    by (simp del: upt_Suc add: Suc rev_upt_from_1 rmatch_Digits last)
qed

lemma rmatch_keyword_number:
  "rmatch [Atom (Lit kw), Atom Spaces, Atom Digits] s =
     map_option (\<lambda>ds. [ds]) (number_at kw s)"
  by (simp only: rmatch.simps(2,3) spaces_then_digits number_at_def split: option.split) simp

lemma Find_keyword_number:
  "FindStringSubmatch [Atom (Lit kw), Atom Spaces, Atom Digits] s =
     (case first_number kw s of None \<Rightarrow> [] | Some ds \<Rightarrow> [ds])"
proof (induction s)
  case Nil
  show ?case by (simp add: rmatch_keyword_number split: option.split)
next
  case (Cons c cs)
  then show ?case by (simp add: rmatch_keyword_number split: option.split)
qed

lemma number_at_digits:
  "number_at kw s = Some ds \<Longrightarrow> ds \<noteq> [] \<and> list_all isDigit ds"
  by (auto simp add: number_at_def list_all_iff split: option.splits if_splits
      dest: set_takeWhileD)

lemma first_number_digits:
  "first_number kw s = Some ds \<Longrightarrow> ds \<noteq> [] \<and> list_all isDigit ds"
proof (induction s)
  case Nil
  then show ?case using number_at_digits [of kw "[]" ds] by simp
next
  case (Cons c cs)
  then show ?case
    using number_at_digits [of kw "c # cs" ds] by (auto split: option.splits)
qed

lemma parseLimit_by_number:
  "parseLimit s q =
     (case first_number ''LIMIT'' s of
        None \<Rightarrow> Inr q
      | Some ds \<Rightarrow> (case Atoi ds of None \<Rightarrow> Inl NumError
                                   | Some limit \<Rightarrow> Inr (q\<lparr>Limit := limit\<rparr>)))"
  by (simp add: parseLimit_def limitRegex_def Find_keyword_number split: option.split)

lemma parseOffset_by_number:
  "parseOffset s q =
     (case first_number ''OFFSET'' s of
        None \<Rightarrow> Inr q
      | Some ds \<Rightarrow> (case Atoi ds of None \<Rightarrow> Inl NumError
                                   | Some offset \<Rightarrow> Inr (q\<lparr>Offset := offset\<rparr>)))"
  by (simp add: parseOffset_def offsetRegex_def Find_keyword_number split: option.split)

lemma Parse_blocks:
  "Parse pf fuel s =
     (case parseHead pf fuel s of
        None \<Rightarrow> None
      | Some (Inl err) \<Rightarrow> Some (Inl err)
      | Some (Inr q0) \<Rightarrow>
          Some (case parseLimit s q0 of Inl err \<Rightarrow> Inl err | Inr q1 \<Rightarrow> parseOffset s q1))"
  by (simp add: Parse_def parseHead_def parseLimitOffset_def Let_def
      split: option.split sum.split)

lemma parseHead_defaults:
  "parseHead pf fuel s = Some (Inr q0) \<Longrightarrow> Limit q0 = - 1 \<and> Offset q0 = 0"
  by (auto simp add: parseHead_def Let_def split: if_splits option.splits sum.splits)


lemma long_s_is_no_S: "upper_char (CHR 0xC5) \<noteq> CHR ''S''"
  by (simp add: upper_char_def)

lemma kelvin_is_no_K: "upper_char (CHR 0xE2) \<noteq> CHR ''K''"
  by (simp add: upper_char_def)

lemma take_prefix_append:
  assumes "take n k = w" and "length w = n"
  shows "take n (k @ r) = w \<and> drop n (k @ r) = drop n k @ r"
proof -
  have "n \<le> length k"
    using assms by (metis length_take min.cobounded1)
  then show ?thesis
    using assms by simp
qed

lemma fold_step_S:
  "upper_char p = CHR ''S'' \<Longrightarrow> take 2 s = [CHR 0xC5, CHR 0xBF] \<Longrightarrow> fold_step p s = Some (drop 2 s)"
  by (simp add: fold_step_def)

lemma fold_step_K:
  "upper_char p = CHR ''K'' \<Longrightarrow> take 3 s = [CHR 0xE2, CHR 0x84, CHR 0xAA] \<Longrightarrow>
   fold_step p s = Some (drop 3 s)"
  by (simp add: fold_step_def)

lemma fold_step_plain:
  "\<not> (upper_char p = CHR ''S'' \<and> take 2 s = [CHR 0xC5, CHR 0xBF]) \<Longrightarrow>
   \<not> (upper_char p = CHR ''K'' \<and> take 3 s = [CHR 0xE2, CHR 0x84, CHR 0xAA]) \<Longrightarrow>
   fold_step p s =
     (case s of [] \<Rightarrow> None | c # r \<Rightarrow> if upper_char c = upper_char p then Some r else None)"
  unfolding fold_step_def by (simp only: if_False)


lemma fold_step_append:
  assumes "fold_step p k = Some k'"
  shows "fold_step p (k @ r) = Some (k' @ r)"
proof -
  let ?S = "\<lambda>s. upper_char p = CHR ''S'' \<and> take 2 s = [CHR 0xC5, CHR 0xBF]"
  let ?K = "\<lambda>s. upper_char p = CHR ''K'' \<and> take 3 s = [CHR 0xE2, CHR 0x84, CHR 0xAA]"
  consider (S) "?S k" | (K) "\<not> ?S k" "?K k" | (C) "\<not> ?S k" "\<not> ?K k"
    by blast
  then show ?thesis
  proof cases
    case S
    then have k': "k' = drop 2 k"
      using assms fold_step_S [of p k] by simp
    have "take 2 (k @ r) = [CHR 0xC5, CHR 0xBF] \<and> drop 2 (k @ r) = drop 2 k @ r"
      using S by (intro take_prefix_append) simp_all
    then show ?thesis
      using S k' fold_step_S [of p "k @ r"] by simp
  next
    case K
    then have k': "k' = drop 3 k"
      using assms fold_step_K [of p k] by simp
    have "take 3 (k @ r) = [CHR 0xE2, CHR 0x84, CHR 0xAA] \<and> drop 3 (k @ r) = drop 3 k @ r"
      using K by (intro take_prefix_append) simp_all
    then show ?thesis
      using K k' fold_step_K [of p "k @ r"] by simp
  next
    case C
    have "(case k of [] \<Rightarrow> None | c # t \<Rightarrow> if upper_char c = upper_char p then Some t else None)
            = Some k'"
      using assms fold_step_plain [OF C] by simp
    then obtain c where k: "k = c # k'" and c: "upper_char c = upper_char p"
      by (cases k) (simp_all split: if_splits)
    have nS: "\<not> ?S (k @ r)"
    proof
      assume a: "?S (k @ r)"
      then have "c = CHR 0xC5"
        using k by simp
      then show False
        using a c long_s_is_no_S by simp
    qed
    have nK: "\<not> ?K (k @ r)"
    proof
      assume a: "?K (k @ r)"
      then have "c = CHR 0xE2"
        using k by simp
      then show False
        using a c kelvin_is_no_K by simp
    qed
    show ?thesis
      using fold_step_plain [OF nS nK] k c by simp
  qed
qed

lemma lit_rest_append:
  "lit_rest kw k = Some k' \<Longrightarrow> lit_rest kw (k @ r) = Some (k' @ r)"
proof (induction kw arbitrary: k)
  case Nil
  then show ?case by simp
next
  case (Cons p ps)
  then obtain k1 where "fold_step p k = Some k1" and "lit_rest ps k1 = Some k'"
    by (auto split: option.splits)
  then show ?case
    using Cons.IH [of k1] fold_step_append [of p k k1 r] by simp
qed

lemma number_at_shape:
  assumes "lit_rest kw k = Some []"
    and "ws \<noteq> []" and "list_all isReSpace ws"
    and "ds \<noteq> []" and "list_all isDigit ds"
    and "rest = [] \<or> \<not> isDigit (hd rest)"
  shows "number_at kw (k @ ws @ ds @ rest) = Some ds"
proof -
  have lit: "lit_rest kw (k @ ws @ ds @ rest) = Some (ws @ ds @ rest)"
    using lit_rest_append [OF assms(1), of "ws @ ds @ rest"] by simp
  obtain d ds' where ds: "ds = d # ds'"
    using assms(4) by (cases ds) auto
  then have "isDigit d"
    using assms(5) by simp
  then have nospace: "\<not> isReSpace d"
    using space_is_no_digit by blast
  have tw: "takeWhile isReSpace (ws @ ds @ rest) = ws"
    using assms(3) nospace ds by (simp add: list_all_iff takeWhile_append2)
  have dw: "dropWhile isReSpace (ws @ ds @ rest) = ds @ rest"
    using assms(3) nospace ds by (simp add: list_all_iff dropWhile_append2)
  have td: "takeWhile isDigit (ds @ rest) = ds"
    using assms(5,6) by (cases rest) (simp_all add: list_all_iff takeWhile_append2)
  show ?thesis
    using assms(2,4) by (simp add: number_at_def lit tw dw td)
qed

lemma digit_val_nonneg: "isDigit c \<Longrightarrow> 0 \<le> digit_val c"
  by (simp add: isDigit_def digit_val_def less_eq_char_def)

lemma digits_value_nonneg:
  "list_all isDigit ds \<Longrightarrow> 0 \<le> a \<Longrightarrow> 0 \<le> foldl (\<lambda>a c. 10 * a + digit_val c) a ds"
proof (induction ds arbitrary: a)
  case Nil
  then show ?case by simp
next
  case (Cons d ds)
  then have "0 \<le> 10 * a + digit_val d"
    using digit_val_nonneg [of d] by simp
  then show ?case
    using Cons by simp
qed

lemma Atoi_digits:
  assumes "ds \<noteq> []" and "list_all isDigit ds"
  shows "Atoi ds =
           (if foldl (\<lambda>a c. 10 * a + digit_val c) 0 ds < 2 ^ 63
            then Some (foldl (\<lambda>a c. 10 * a + digit_val c) 0 ds) else None)"
proof -
  obtain d r where ds: "ds = d # r"
    using assms(1) by (cases ds) auto
  then have "isDigit d"
    using assms(2) by simp
  then have "d \<noteq> CHR ''-''" and "d \<noteq> CHR ''+''"
    by (auto simp add: isDigit_def)
  moreover have "0 \<le> foldl (\<lambda>a c. 10 * a + digit_val c) 0 ds"
    using digits_value_nonneg [OF assms(2), of 0] by simp
  ultimately show ?thesis
    using assms ds by (simp add: Atoi_def Let_def)
qed

lemma parse_limit_5x:
  "Parse pf (Suc n) ''SELECT * FROM t LIMIT 5x'' =
   Some (Inr \<lparr>Select = [''*''], From = ''t'', Where = None, Limit = 5, Offset = 0\<rparr>)"
  by code_simp

lemma limit_ignored_keeps_default:
  assumes "first_number ''LIMIT'' s = None" and "Parse pf fuel s = Some (Inr q')"
  shows "Limit q' = - 1"
proof -
  obtain q0 where head: "parseHead pf fuel s = Some (Inr q0)"
    and rest: "(case parseLimit s q0 of Inl err \<Rightarrow> Inl err | Inr q1 \<Rightarrow> parseOffset s q1) = Inr q'"
    using assms(2) by (auto simp add: Parse_blocks split: option.splits sum.splits)
  have "parseLimit s q0 = Inr q0"
    using assms(1) by (simp add: parseLimit_by_number)
  then have "parseOffset s q0 = Inr q'"
    using rest by simp
  then have "Limit q' = Limit q0"
    by (auto simp add: parseOffset_by_number split: option.splits)
  then show ?thesis
    using parseHead_defaults [OF head] by simp
qed

lemma offset_ignored_keeps_default:
  assumes "first_number ''OFFSET'' s = None" and "Parse pf fuel s = Some (Inr q')"
  shows "Offset q' = 0"
proof -
  obtain q0 where head: "parseHead pf fuel s = Some (Inr q0)"
    and rest: "(case parseLimit s q0 of Inl err \<Rightarrow> Inl err | Inr q1 \<Rightarrow> parseOffset s q1) = Inr q'"
    using assms(2) by (auto simp add: Parse_blocks split: option.splits sum.splits)
  then obtain q1 where lim: "parseLimit s q0 = Inr q1" and off: "parseOffset s q1 = Inr q'"
    by (auto split: sum.splits)
  have "Offset q1 = Offset q0"
    using lim by (auto simp add: parseLimit_by_number split: option.splits)
  moreover have "q' = q1"
    using off assms(1) by (simp add: parseOffset_by_number)
  ultimately show ?thesis
    using parseHead_defaults [OF head] by simp
qed

lemma no_limit_number: "first_number ''LIMIT'' ''SELECT * FROM t LIMIT -5 OFFSET x'' = None"
  by code_simp

lemma no_offset_number: "first_number ''OFFSET'' ''SELECT * FROM t LIMIT -5 OFFSET x'' = None"
  by code_simp

lemma head_minus5:
  "parseHead pf (Suc n) ''SELECT * FROM t LIMIT -5 OFFSET x'' =
   Some (Inr \<lparr>Select = [''*''], From = ''t'', Where = None, Limit = - 1, Offset = 0\<rparr>)"
  by code_simp

lemma limit_number_12:
  "first_number ''LIMIT'' ''SELECT * FROM t LIMIT 12abc OFFSET x'' = Some ''12''"
  by code_simp

lemma no_offset_number_12:
  "first_number ''OFFSET'' ''SELECT * FROM t LIMIT 12abc OFFSET x'' = None"
  by code_simp

lemma head_12:
  "parseHead pf (Suc n) ''SELECT * FROM t LIMIT 12abc OFFSET x'' =
   Some (Inr \<lparr>Select = [''*''], From = ''t'', Where = None, Limit = - 1, Offset = 0\<rparr>)"
  by code_simp

lemma long_s_offset:
  "first_number ''OFFSET'' (''SELECT * FROM t LIMIT x OFF'' @ [CHR 0xC5, CHR 0xBF] @ ''ET 3'') =
   Some ''3''"
  by code_simp

lemma long_s_limit:
  "first_number ''LIMIT'' (''SELECT * FROM t LIMIT x OFF'' @ [CHR 0xC5, CHR 0xBF] @ ''ET 3'') =
   None"
  by code_simp

lemma head_long_s:
  "parseHead pf (Suc n) (''SELECT * FROM t LIMIT x OFF'' @ [CHR 0xC5, CHR 0xBF] @ ''ET 3'') =
   Some (Inr \<lparr>Select = [''*''], From = ''t'', Where = None, Limit = - 1, Offset = 0\<rparr>)"
  by code_simp

lemma Atoi_12: "Atoi ''12'' = Some 12"
  by code_simp

lemma Atoi_3: "Atoi ''3'' = Some 3"
  by code_simp

text \<open>
  C10, as claimed: whenever the token after LIMIT is not a sequence of digits, the
  clause is ignored and the limit stays -1. This fails for a token that starts with
  digits: the expression \<^verbatim>\<open>LIMIT\s+(\d+)\<close> matches the leading digits of \<^verbatim>\<open>5x\<close>, and the
  parsed limit is 5.
\<close>

theorem C10_counterexample:
  "\<not> list_all isDigit ''5x'' \<and>
   Parse Map.empty 1 ''SELECT * FROM t LIMIT 5x'' =
     Some (Inr \<lparr>Select = [''*''], From = ''t'', Where = None, Limit = 5, Offset = 0\<rparr>)"
  using parse_limit_5x [of Map.empty 0] by (simp add: isDigit_def)

text \<open>
  C10, amended. \<open>Parse\<close> is its first three blocks followed by the LIMIT block and the
  OFFSET block, and the query that enters the LIMIT block has limit -1 and offset 0.
  The LIMIT block looks at the leftmost LIMIT keyword that is followed by white space
  and a digit. When the text has no such place (as with \<^verbatim>\<open>LIMIT -5\<close> and \<^verbatim>\<open>LIMIT x\<close>), the
  block reports no error and leaves the query as it is, so a parsed query has limit
  -1. Otherwise the digits up to the first character that is no digit are the value,
  whatever follows them (\<^verbatim>\<open>LIMIT 5x\<close> sets the limit to 5), and the block fails only
  when \<open>Atoi\<close> rejects these digits, which it does exactly when their value does not fit
  a 64-bit integer. The same holds for the OFFSET block and the default 0. The last part
  spells out the place that \<open>number_at\<close> reads: after a keyword and white space, the
  digits \<open>ds\<close> of a token \<open>ds @ rest\<close> are the number, whatever \<open>rest\<close> is.
\<close>

theorem C10_clause_without_number_is_ignored:
  "Parse pf fuel s =
     (case parseHead pf fuel s of
        None \<Rightarrow> None
      | Some (Inl err) \<Rightarrow> Some (Inl err)
      | Some (Inr q0) \<Rightarrow>
          Some (case parseLimit s q0 of Inl err \<Rightarrow> Inl err | Inr q1 \<Rightarrow> parseOffset s q1)) \<and>
   (\<forall>q0. parseHead pf fuel s = Some (Inr q0) \<longrightarrow> Limit q0 = - 1 \<and> Offset q0 = 0) \<and>
   parseLimit s q =
     (case first_number ''LIMIT'' s of
        None \<Rightarrow> Inr q
      | Some ds \<Rightarrow> (case Atoi ds of None \<Rightarrow> Inl NumError
                                   | Some limit \<Rightarrow> Inr (q\<lparr>Limit := limit\<rparr>))) \<and>
   parseOffset s q =
     (case first_number ''OFFSET'' s of
        None \<Rightarrow> Inr q
      | Some ds \<Rightarrow> (case Atoi ds of None \<Rightarrow> Inl NumError
                                   | Some offset \<Rightarrow> Inr (q\<lparr>Offset := offset\<rparr>))) \<and>
   (first_number ''LIMIT'' s = None \<longrightarrow>
      parseLimit s q = Inr q \<and> (\<forall>q'. Parse pf fuel s = Some (Inr q') \<longrightarrow> Limit q' = - 1)) \<and>
   (first_number ''OFFSET'' s = None \<longrightarrow>
      parseOffset s q = Inr q \<and> (\<forall>q'. Parse pf fuel s = Some (Inr q') \<longrightarrow> Offset q' = 0)) \<and>
   (\<forall>kw ds. first_number kw s = Some ds \<longrightarrow>
      ds \<noteq> [] \<and> list_all isDigit ds \<and>
      Atoi ds = (if foldl (\<lambda>a c. 10 * a + digit_val c) 0 ds < 2 ^ 63
                 then Some (foldl (\<lambda>a c. 10 * a + digit_val c) 0 ds) else None)) \<and>
   (\<forall>kw k ws ds rest.
      lit_rest kw k = Some [] \<and> ws \<noteq> [] \<and> list_all isReSpace ws \<and>
      ds \<noteq> [] \<and> list_all isDigit ds \<and> (rest = [] \<or> \<not> isDigit (hd rest)) \<longrightarrow>
      number_at kw (k @ ws @ ds @ rest) = Some ds)"
proof -
  have 1: "parseLimit s q = Inr q" if "first_number ''LIMIT'' s = None"
    using that by (simp add: parseLimit_by_number)
  have 2: "parseOffset s q = Inr q" if "first_number ''OFFSET'' s = None"
    using that by (simp add: parseOffset_by_number)
  have 3: "ds \<noteq> [] \<and> list_all isDigit ds \<and>
           Atoi ds = (if foldl (\<lambda>a c. 10 * a + digit_val c) 0 ds < 2 ^ 63
                      then Some (foldl (\<lambda>a c. 10 * a + digit_val c) 0 ds) else None)"
    if "first_number kw s = Some ds" for kw ds
    using first_number_digits [OF that] Atoi_digits [of ds] by simp
  have 4: "number_at kw (k @ ws @ ds @ rest) = Some ds"
    if "lit_rest kw k = Some [] \<and> ws \<noteq> [] \<and> list_all isReSpace ws \<and>
        ds \<noteq> [] \<and> list_all isDigit ds \<and> (rest = [] \<or> \<not> isDigit (hd rest))"
    for kw k ws ds rest
    using that number_at_shape [of kw k ws ds rest] by blast
  show ?thesis
    using 1 2 3 4 Parse_blocks [of pf fuel s] parseHead_defaults [of pf fuel s]
      parseLimit_by_number [of s q] parseOffset_by_number [of s q]
      limit_ignored_keeps_default [of s pf fuel] offset_ignored_keeps_default [of s pf fuel]
    by (intro conjI allI impI) blast+
qed

theorem C10_witness:
  "first_number ''LIMIT'' ''SELECT * FROM t LIMIT -5 OFFSET x'' = None \<and>
   first_number ''OFFSET'' ''SELECT * FROM t LIMIT -5 OFFSET x'' = None \<and>
   Parse Map.empty 1 ''SELECT * FROM t LIMIT -5 OFFSET x'' =
     Some (Inr \<lparr>Select = [''*''], From = ''t'', Where = None, Limit = - 1, Offset = 0\<rparr>) \<and>
   lit_rest ''LIMIT'' ''limit'' = Some [] \<and>
   number_at ''LIMIT'' (''limit'' @ '' '' @ ''12'' @ ''abc'') = Some ''12'' \<and>
   first_number ''LIMIT'' ''SELECT * FROM t LIMIT 12abc OFFSET x'' = Some ''12'' \<and>
   Atoi ''12'' = Some 12 \<and>
   Parse Map.empty 1 ''SELECT * FROM t LIMIT 12abc OFFSET x'' =
     Some (Inr \<lparr>Select = [''*''], From = ''t'', Where = None, Limit = 12, Offset = 0\<rparr>) \<and>
   first_number ''LIMIT'' (''SELECT * FROM t LIMIT x OFF'' @ [CHR 0xC5, CHR 0xBF] @ ''ET 3'') = None \<and>
   Parse Map.empty 1 (''SELECT * FROM t LIMIT x OFF'' @ [CHR 0xC5, CHR 0xBF] @ ''ET 3'') =
     Some (Inr \<lparr>Select = [''*''], From = ''t'', Where = None, Limit = - 1, Offset = 3\<rparr>)"
proof -
  let ?q = "\<lparr>Select = [''*''], From = ''t'', Where = None, Limit = - 1, Offset = 0\<rparr>"
  let ?a = "''SELECT * FROM t LIMIT -5 OFFSET x''"
  let ?b = "''SELECT * FROM t LIMIT 12abc OFFSET x''"
  let ?c = "''SELECT * FROM t LIMIT x OFF'' @ [CHR 0xC5, CHR 0xBF] @ ''ET 3''"
  note A = C10_clause_without_number_is_ignored [of Map.empty "Suc 0" ?a ?q]
  note B = C10_clause_without_number_is_ignored [of Map.empty "Suc 0" ?b ?q]
  note C = C10_clause_without_number_is_ignored [of Map.empty "Suc 0" ?c ?q]
  have a1: "parseLimit ?a ?q = Inr ?q"
    using A no_limit_number by blast
  have a2: "parseOffset ?a ?q = Inr ?q"
    using A no_offset_number by blast
  have "Parse Map.empty (Suc 0) ?a =
          (case parseHead Map.empty (Suc 0) ?a of
             None \<Rightarrow> None
           | Some (Inl err) \<Rightarrow> Some (Inl err)
           | Some (Inr q0) \<Rightarrow>
               Some (case parseLimit ?a q0 of Inl err \<Rightarrow> Inl err | Inr q1 \<Rightarrow> parseOffset ?a q1))"
    using A by blast
  then have a: "Parse Map.empty (Suc 0) ?a = Some (Inr ?q)"
    by (simp only: head_minus5 a1 a2 option.case sum.case)
  have b1: "parseLimit ?b ?q = Inr (?q\<lparr>Limit := 12\<rparr>)"
    using B by (simp only: limit_number_12 Atoi_12 option.case)
  have b2: "parseOffset ?b (?q\<lparr>Limit := 12\<rparr>) = Inr (?q\<lparr>Limit := 12\<rparr>)"
    using C10_clause_without_number_is_ignored [of Map.empty "Suc 0" ?b "?q\<lparr>Limit := 12\<rparr>"]
      no_offset_number_12 by blast
  have "Parse Map.empty (Suc 0) ?b =
          (case parseHead Map.empty (Suc 0) ?b of
             None \<Rightarrow> None
           | Some (Inl err) \<Rightarrow> Some (Inl err)
           | Some (Inr q0) \<Rightarrow>
               Some (case parseLimit ?b q0 of Inl err \<Rightarrow> Inl err | Inr q1 \<Rightarrow> parseOffset ?b q1))"
    using B by blast
  then have b: "Parse Map.empty (Suc 0) ?b = Some (Inr (?q\<lparr>Limit := 12\<rparr>))"
    by (simp only: head_12 b1 b2 option.case sum.case)
  have lit: "lit_rest ''LIMIT'' ''limit'' = Some []"
    by code_simp
  have "lit_rest ''LIMIT'' ''limit'' = Some [] \<and> '' '' \<noteq> [] \<and> list_all isReSpace '' '' \<and>
        ''12'' \<noteq> [] \<and> list_all isDigit ''12'' \<and> (''abc'' = [] \<or> \<not> isDigit (hd ''abc''))"
    by code_simp
  then have shape: "number_at ''LIMIT'' (''limit'' @ '' '' @ ''12'' @ ''abc'') = Some ''12''"
    using A by blast
  have c1: "parseLimit ?c ?q = Inr ?q"
    using C long_s_limit by blast
  have c2: "parseOffset ?c ?q = Inr (?q\<lparr>Offset := 3\<rparr>)"
    using C by (simp only: long_s_offset Atoi_3 option.case)
  have "Parse Map.empty (Suc 0) ?c =
          (case parseHead Map.empty (Suc 0) ?c of
             None \<Rightarrow> None
           | Some (Inl err) \<Rightarrow> Some (Inl err)
           | Some (Inr q0) \<Rightarrow>
               Some (case parseLimit ?c q0 of Inl err \<Rightarrow> Inl err | Inr q1 \<Rightarrow> parseOffset ?c q1))"
    using C by blast
  then have c: "Parse Map.empty (Suc 0) ?c = Some (Inr (?q\<lparr>Offset := 3\<rparr>))"
    by (simp only: head_long_s c1 c2 option.case sum.case)
  show ?thesis
    using a b c lit shape no_limit_number no_offset_number limit_number_12 long_s_limit Atoi_12
    by simp
qed

end
